theory Spec2Isabelle
  imports Complex_Main
begin

section \<open>Avoidance utilities of the behavior path planner: the model\<close>

text \<open>
  The theory embeds the avoidance utility functions of the behavior path planner
  (the C++ file that defines \<open>filterTargetObjects\<close>, \<open>fillAvoidanceNecessity\<close>,
  \<open>fillObjectEnvelopePolygon\<close>, \<open>combineRawShiftLinesWithUniqueCheck\<close>,
  \<open>getCurrentLanesFromPath\<close> and \<open>extendToRoadShoulderDistanceWithPolygon\<close>) and the
  inline member \<open>isComfortable\<close> of the avoidance module.

  Conventions.
  \<^item> A C++ \<open>double\<close> that holds a finite value is a \<open>real\<close>: rounding is not modelled and
    comparisons are the exact ones. Where the source itself makes a non-finite value (the
    quotient of two variables, the literal infinity) the value is an \<open>fdouble\<close>.
  \<^item> A C++ exception is the left summand of the result; a function that cannot throw
    returns its value directly.
  \<^item> Output parameters and objects mutated through a reference are returned updated.
  \<^item> Calls that leave the file (route handler, lanelet map, geometry and trajectory
    libraries, members declared in other headers) are fields of the records
    \<open>RouteHandler\<close>, \<open>PlannerData\<close>, \<open>Lib\<close>, \<open>Geom\<close>, \<open>ShiftLineDecls\<close> and
    \<open>AvoidanceHelper\<close>: the functions are modelled for every behaviour of these
    collaborators.
  \<^item> \<open>filterTargetObjects\<close> is one long loop; its body is cut into six parts in the order
    of the source, each a function of its own, and put together again in \<open>filter_object\<close>.
\<close>

subsection \<open>Numbers\<close>

datatype fdouble = Finite real | PosInf | NegInf | NaN

text \<open>
  \<open>std::numeric_limits<double>::max()\<close>: the significand of 53 ones at the largest
  exponent.
\<close>

definition DBL_MAX :: real where
  "DBL_MAX = (2 ^ 53 - 1) * 2 ^ 971"

text \<open>IEEE division of two finite values (the sign of a zero divisor is taken positive).\<close>

definition ddiv :: "real \<Rightarrow> real \<Rightarrow> fdouble" where
  "ddiv a b =
     (if b \<noteq> 0 then Finite (a / b)
      else if 0 < a then PosInf
      else if a < 0 then NegInf
      else NaN)"

text \<open>Product of a finite value and an \<open>fdouble\<close>.\<close>

fun dmul :: "real \<Rightarrow> fdouble \<Rightarrow> fdouble" where
  "dmul a (Finite r) = Finite (a * r)"
| "dmul a PosInf = (if 0 < a then PosInf else if a < 0 then NegInf else NaN)"
| "dmul a NegInf = (if 0 < a then NegInf else if a < 0 then PosInf else NaN)"
| "dmul a NaN = NaN"

text \<open>Sum of a finite value and an \<open>fdouble\<close>.\<close>

fun dadd :: "real \<Rightarrow> fdouble \<Rightarrow> fdouble" where
  "dadd a (Finite r) = Finite (a + r)"
| "dadd a PosInf = PosInf"
| "dadd a NegInf = NegInf"
| "dadd a NaN = NaN"

text \<open>The comparison \<open>x > t\<close> of an \<open>fdouble\<close> with a finite value: false on NaN.\<close>

fun dgreater :: "fdouble \<Rightarrow> real \<Rightarrow> bool" where
  "dgreater (Finite r) t = (t < r)"
| "dgreater PosInf t = True"
| "dgreater NegInf t = False"
| "dgreater NaN t = False"

fun is_finite :: "fdouble \<Rightarrow> bool" where
  "is_finite (Finite r) = True"
| "is_finite PosInf = False"
| "is_finite NegInf = False"
| "is_finite NaN = False"

subsection \<open>Messages and map primitives\<close>

datatype error =
    LogicError string
  | OutOfRange
  | NoSuchAttribute
  | NoSuchPrimitive
  | EmptyContainer
  | External string

text \<open>
  \<open>EmptyContainer\<close> stands for \<open>front()\<close> or \<open>back()\<close> of an empty vector, which C++
  leaves undefined; \<open>External\<close> is an exception raised inside a collaborator.
\<close>

type_synonym UUID = nat

type_synonym Time = int

record Point =
  px :: real
  py :: real
  pz :: real

record Quaternion =
  qx :: real
  qy :: real
  qz :: real
  qw :: real

record Pose =
  position :: Point
  orientation :: Quaternion

type_synonym Point2d = "real \<times> real"

text \<open>A polygon is its outer ring, as in \<open>boost::geometry\<close>.\<close>

type_synonym Polygon2d = "Point2d list"

record LineString =
  ls_id :: int
  ls_points :: "Point list"

record Polygon3d =
  poly_id :: int
  poly_points :: "Point list"

record Lanelet =
  lanelet_id :: int
  attributes :: "(string \<times> string) list"
  leftBound :: LineString
  rightBound :: LineString
  centerline :: LineString
  polygon2d :: Polygon2d

definition attributeOr :: "Lanelet \<Rightarrow> string \<Rightarrow> string \<Rightarrow> string" where
  "attributeOr ll k dflt = (case map_of (attributes ll) k of None \<Rightarrow> dflt | Some v \<Rightarrow> v)"

text \<open>\<open>ConstLanelet::attribute\<close> throws when the key is missing.\<close>

definition attribute :: "Lanelet \<Rightarrow> string \<Rightarrow> error + string" where
  "attribute ll k = (case map_of (attributes ll) k of None \<Rightarrow> Inl NoSuchAttribute | Some v \<Rightarrow> Inr v)"

record PathPointWithLaneId =
  point_pose :: Pose
  longitudinal_velocity_mps :: real
  lane_ids :: "int list"

record PathWithLaneId =
  points :: "PathPointWithLaneId list"

subsection \<open>Route handler and planner data\<close>

text \<open>
  The answers of the route handler and of the lanelet map. \<open>getLaneletsFromId\<close> looks
  the identifier up in the map and may throw there: the left summand is the message of
  that exception.
\<close>

record RouteHandler =
  getLaneletsFromId :: "int \<Rightarrow> string + Lanelet"
  getLaneletSequence :: "Lanelet \<Rightarrow> real \<Rightarrow> real \<Rightarrow> Lanelet list"
  isInGoalRouteSection :: "Lanelet \<Rightarrow> bool"
  getNextLanelets :: "Lanelet \<Rightarrow> Lanelet list"
  getClosestLaneletWithinRoute :: "Pose \<Rightarrow> Lanelet option"
  getFurthestLinestring :: "Lanelet \<Rightarrow> bool \<Rightarrow> bool \<Rightarrow> bool \<Rightarrow> bool \<Rightarrow> LineString list"
  getPreviousLaneletsWithinRoute :: "Lanelet \<Rightarrow> Lanelet list option"
  getNextLaneletWithinRoute :: "Lanelet \<Rightarrow> Lanelet option"
  conflictingInGraph :: "Lanelet \<Rightarrow> nat \<Rightarrow> Lanelet list"
  getMostLeftLanelet :: "Lanelet \<Rightarrow> Lanelet"
  getMostRightLanelet :: "Lanelet \<Rightarrow> Lanelet"
  findUsages :: "LineString \<Rightarrow> Lanelet list"
  polygonLayer_get :: "int \<Rightarrow> Polygon3d option"

record BehaviorPathPlannerParameters =
  vehicle_width :: real
  backward_path_length :: real
  forward_path_length :: real

record PlannerData =
  route_handler :: RouteHandler
  parameters :: BehaviorPathPlannerParameters
  self_odometry :: Pose
  findEgoIndex :: "PathPointWithLaneId list \<Rightarrow> nat"

subsection \<open>\<open>getCurrentLanesFromPath\<close>\<close>

definition getCurrentLanesFromPath :: "PathWithLaneId \<Rightarrow> PlannerData \<Rightarrow> error + Lanelet list" where
  "getCurrentLanesFromPath path planner_data =
     (case points path of
        [] \<Rightarrow> Inl (LogicError ''empty path.'')
      | front # _ \<Rightarrow>
          (case lane_ids front of
             [] \<Rightarrow> Inl (LogicError ''empty lane ids.'')
           | start_id # _ \<Rightarrow>
               (case getLaneletsFromId (route_handler planner_data) start_id of
                  Inl msg \<Rightarrow> Inl (External msg)
                | Inr start_lane \<Rightarrow>
                    Inr (getLaneletSequence (route_handler planner_data) start_lane
                           (backward_path_length (parameters planner_data))
                           (forward_path_length (parameters planner_data))))))"

subsection \<open>Objects and parameters\<close>

datatype ObjectClassification =
  UNKNOWN | CAR | TRUCK | BUS | TRAILER | MOTORCYCLE | BICYCLE | PEDESTRIAN

text \<open>
  Of a perceived object the model keeps the identifier, the pose, the width of the shape
  and, as \<open>label\<close>, the value that \<open>utils::getHighestProbLabel\<close> returns for its
  classification.
\<close>

record PredictedObject =
  object_id :: UUID
  label :: ObjectClassification
  initial_pose :: Pose
  shape_dimensions_y :: real

datatype AvoidanceDebugFactor =
    OBJECT_IS_NOT_TYPE
  | MOVING_OBJECT
  | OBJECT_IS_BEHIND_THRESHOLD
  | OBJECT_IS_IN_FRONT_THRESHOLD
  | OBJECT_BEHIND_PATH_GOAL
  | TOO_NEAR_TO_CENTERLINE
  | NOT_PARKING_OBJECT

text \<open>
  The \<open>reason\<close> of an object is a string: either a constant of the message
  \<open>AvoidanceDebugFactor\<close> or a literal of the source.
\<close>

datatype reason_text = Factor AvoidanceDebugFactor | Literal string

record ObjectData =
  object :: PredictedObject
  lateral :: real
  longitudinal :: real
  length_obj :: real
  overhang_dist :: real
  overhang_pose :: Pose
  overhang_lanelet :: Lanelet
  envelope_poly :: Polygon2d
  centroid :: Point2d
  to_road_shoulder_distance :: real
  distance_factor :: real
  to_stop_factor_distance :: real
  shiftable_ratio :: fdouble
  move_time :: fdouble
  stop_time :: real
  last_seen :: Time
  avoid_margin :: "real option"
  avoid_required :: bool
  reason :: reason_text

record ObjectParameter =
  is_target :: bool
  moving_speed_threshold :: real
  moving_time_threshold :: real
  envelope_buffer_margin :: real
  avoid_margin_lateral :: real
  safety_buffer_lateral :: real

record AvoidanceParameters =
  object_parameters :: "ObjectClassification \<rightharpoonup> ObjectParameter"
  hysteresis_factor_expand_rate :: real
  object_check_backward_distance :: real
  object_check_max_forward_distance :: real
  object_check_goal_distance :: real
  use_adjacent_lane :: bool
  use_opposite_lane :: bool
  use_hatched_road_markings :: bool
  use_intersection_areas :: bool
  soft_road_shoulder_margin :: real
  hard_road_shoulder_margin :: real
  lateral_execution_threshold :: real
  threshold_time_force_avoidance_for_stopped_vehicle :: real
  enable_force_avoidance_for_stopped_vehicle :: bool
  object_ignore_section_traffic_light_in_front_distance :: real
  object_ignore_section_crosswalk_in_front_distance :: real
  object_ignore_section_crosswalk_behind_distance :: real
  threshold_distance_object_is_on_center :: real
  object_check_min_road_shoulder_width :: real
  object_check_shiftable_ratio :: real

definition isOnRight :: "ObjectData \<Rightarrow> bool" where
  "isOnRight obj = (lateral obj < 0.0)"

definition isTargetObjectType :: "PredictedObject \<Rightarrow> AvoidanceParameters \<Rightarrow> bool" where
  "isTargetObjectType obj params =
     (case object_parameters params (label obj) of
        None \<Rightarrow> False
      | Some object_parameter \<Rightarrow> is_target object_parameter)"

definition isVehicleTypeObject :: "ObjectData \<Rightarrow> bool" where
  "isVehicleTypeObject obj =
     (if label (object obj) = UNKNOWN then False
      else if label (object obj) = PEDESTRIAN then False
      else if label (object obj) = BICYCLE then False
      else True)"

text \<open>\<open>std::find_if\<close> over the registered objects: the first one with the identifier.\<close>

definition find_same_id :: "UUID \<Rightarrow> ObjectData list \<Rightarrow> ObjectData option" where
  "find_same_id ident registered_objects =
     find (\<lambda>r. object_id (object r) = ident) registered_objects"

subsection \<open>\<open>fillAvoidanceNecessity\<close>\<close>

definition check_necessity :: "ObjectData \<Rightarrow> real \<Rightarrow> real \<Rightarrow> bool" where
  "check_necessity object_data safety_margin hysteresis_factor =
     ((isOnRight object_data \<and>
         \<bar>overhang_dist object_data\<bar> < safety_margin * hysteresis_factor) \<or>
      (\<not> isOnRight object_data \<and>
         overhang_dist object_data < safety_margin * hysteresis_factor))"

definition fillAvoidanceNecessity ::
  "ObjectData \<Rightarrow> ObjectData list \<Rightarrow> real \<Rightarrow> AvoidanceParameters \<Rightarrow> error + ObjectData" where
  "fillAvoidanceNecessity object_data registered_objects vehicle_width_arg params =
     (case object_parameters params (label (object object_data)) of
        None \<Rightarrow> Inl OutOfRange
      | Some object_parameter \<Rightarrow>
          (let safety_margin =
                 0.5 * vehicle_width_arg +
                 safety_buffer_lateral object_parameter * distance_factor object_data
           in case find_same_id (object_id (object object_data)) registered_objects of
                None \<Rightarrow>
                  Inr (object_data\<lparr>avoid_required :=
                         check_necessity object_data safety_margin 1.0\<rparr>)
              | Some same_id_obj \<Rightarrow>
                  if \<not> avoid_required same_id_obj then
                    Inr (object_data\<lparr>avoid_required :=
                           check_necessity object_data safety_margin 1.0\<rparr>)
                  else
                    Inr (object_data\<lparr>avoid_required :=
                           check_necessity object_data safety_margin
                             (hysteresis_factor_expand_rate params)\<rparr>)))"

subsection \<open>\<open>createEnvelopePolygon\<close> and \<open>fillObjectEnvelopePolygon\<close>\<close>





subsection \<open>Library calls of the object filter\<close>

record ArcCoordinates =
  arc_length :: real
  arc_distance :: real

text \<open>A point whose coordinates may be non-finite: the far end of the extension ray.\<close>

type_synonym FPoint = "fdouble \<times> fdouble"

text \<open>
  \<open>rclcpp_ok\<close> is the answer of \<open>rclcpp::ok()\<close> during the call. The two distance
  functions of \<open>boost::geometry\<close> are \<open>distance_polygon_line\<close> and
  \<open>distance_point_polygon\<close>; \<open>calcSignedArcLengthIdx\<close> is the overload of
  \<open>calcSignedArcLength\<close> on indices.
\<close>

record Lib =
  rclcpp_ok :: bool
  findNearestIndex :: "PathPointWithLaneId list \<Rightarrow> Point \<Rightarrow> nat"
  calcSignedArcLengthIdx :: "PathPointWithLaneId list \<Rightarrow> nat \<Rightarrow> nat \<Rightarrow> real"
  calcSignedArcLength :: "PathPointWithLaneId list \<Rightarrow> Point \<Rightarrow> Point \<Rightarrow> real"
  getLaneletLength2d :: "Lanelet list \<Rightarrow> real"
  getArcCoordinates :: "Lanelet list \<Rightarrow> Pose \<Rightarrow> ArcCoordinates"
  distance_polygon_line :: "Polygon2d \<Rightarrow> LineString \<Rightarrow> real"
  distance_point_polygon :: "Point2d \<Rightarrow> Polygon2d \<Rightarrow> real"
  correct_polygon :: "Polygon2d \<Rightarrow> Polygon2d"
  within_point_polygon :: "Point2d \<Rightarrow> Polygon2d \<Rightarrow> bool"
  getDistanceToNextTrafficLight :: "Pose \<Rightarrow> Lanelet list \<Rightarrow> real"
  getDistanceToCrosswalk :: "Pose \<Rightarrow> Lanelet list \<Rightarrow> real"
  getClosestCenterPose :: "Lanelet \<Rightarrow> Point \<Rightarrow> Pose"
  distance2d :: "LineString \<Rightarrow> Point \<Rightarrow> real"
  toArcCoordinates :: "LineString \<Rightarrow> Point2d \<Rightarrow> ArcCoordinates"
  fromArcCoordinates :: "LineString \<Rightarrow> ArcCoordinates \<Rightarrow> Point2d"
  getPolygonByPoint :: "Point \<Rightarrow> string \<Rightarrow> Polygon3d option"
  intersect :: "Point \<Rightarrow> FPoint \<Rightarrow> Point \<Rightarrow> Point \<Rightarrow> Point option"
  calcDistance2d :: "Point \<Rightarrow> Point \<Rightarrow> real"
  atoi :: "string \<Rightarrow> int"

definition bindE :: "error + 'a \<Rightarrow> ('a \<Rightarrow> error + 'b) \<Rightarrow> error + 'b" where
  "bindE m f = (case m of Inl e \<Rightarrow> Inl e | Inr v \<Rightarrow> f v)"

subsection \<open>Shift lines\<close>

text \<open>
  \<open>line_object\<close> is the member \<open>object\<close> of the shift line: the object the line was
  generated for.
\<close>

record AvoidLine =
  start_pose :: Pose
  end_pose :: Pose
  start_shift_length :: real
  end_shift_length :: real
  start_longitudinal :: real
  end_longitudinal :: real
  line_object :: ObjectData

text \<open>\<open>calcDistance2d\<close> of two poses is the one of their positions.\<close>

definition isSimilar :: "Lib \<Rightarrow> AvoidLine \<Rightarrow> AvoidLine \<Rightarrow> bool" where
  "isSimilar lib a b =
     (if calcDistance2d lib (position (start_pose a)) (position (start_pose b)) > 1.0 then False
      else if calcDistance2d lib (position (end_pose a)) (position (end_pose b)) > 1.0 then False
      else if \<bar>end_shift_length a - end_shift_length b\<bar> > 0.5 then False
      else True)"

definition hasSameObjectId :: "AvoidLine \<Rightarrow> AvoidLine \<Rightarrow> bool" where
  "hasSameObjectId a b =
     (object_id (object (line_object a)) = object_id (object (line_object b)))"

text \<open>The inner loop: \<open>skip\<close> after the scan of the base lines.\<close>

primrec scan_base_lines :: "Lib \<Rightarrow> AvoidLine \<Rightarrow> AvoidLine list \<Rightarrow> bool" where
  "scan_base_lines lib added_line [] = False"
| "scan_base_lines lib added_line (base_line # rest) =
     (if hasSameObjectId added_line base_line \<and> isSimilar lib added_line base_line
      then True
      else scan_base_lines lib added_line rest)"

text \<open>The outer loop, with \<open>combined\<close> as accumulator.\<close>

primrec combine_loop ::
  "Lib \<Rightarrow> AvoidLine list \<Rightarrow> AvoidLine list \<Rightarrow> AvoidLine list \<Rightarrow> AvoidLine list" where
  "combine_loop lib base_lines [] combined = combined"
| "combine_loop lib base_lines (added_line # rest) combined =
     combine_loop lib base_lines rest
       (if \<not> scan_base_lines lib added_line base_lines
        then combined @ [added_line]
        else combined)"

definition combineRawShiftLinesWithUniqueCheck ::
  "Lib \<Rightarrow> AvoidLine list \<Rightarrow> AvoidLine list \<Rightarrow> AvoidLine list" where
  "combineRawShiftLinesWithUniqueCheck lib base_lines added_lines =
     combine_loop lib base_lines added_lines base_lines"

subsection \<open>\<open>isComfortable\<close>\<close>

text \<open>
  The members of the shift line and of the path shifter that \<open>isComfortable\<close> calls are
  declared outside the file; they are parameters. The helper answers with the ego speed
  used for avoidance and with the lateral jerk limit.
\<close>

record ShiftLineDecls =
  calcJerkFromLatLonDistance :: "real \<Rightarrow> real \<Rightarrow> real \<Rightarrow> real"
  getRelativeLength :: "AvoidLine \<Rightarrow> real"
  getRelativeLongitudinal :: "AvoidLine \<Rightarrow> real"

record AvoidanceHelper =
  getAvoidanceEgoSpeed :: real
  getLateralMaxJerkLimit :: real

definition isComfortable :: "ShiftLineDecls \<Rightarrow> AvoidanceHelper \<Rightarrow> AvoidLine list \<Rightarrow> bool" where
  "isComfortable d helper shift_lines =
     list_all
       (\<lambda>line.
          calcJerkFromLatLonDistance d (getRelativeLength d line) (getRelativeLongitudinal d line)
            (getAvoidanceEgoSpeed helper)
          < getLateralMaxJerkLimit helper)
       shift_lines"

subsection \<open>\<open>lerpShiftLengthOnArc\<close>\<close>

text \<open>
  The interpolation along a shift line divides by the relative longitudinal length of the
  line, after a test that this length is not within \<open>1.0e-5\<close> of zero.
\<close>

definition lerpShiftLengthOnArc :: "ShiftLineDecls \<Rightarrow> real \<Rightarrow> AvoidLine \<Rightarrow> real" where
  "lerpShiftLengthOnArc d arc ap =
     (if start_longitudinal ap \<le> arc \<and> arc < end_longitudinal ap then
        (if \<bar>getRelativeLongitudinal d ap\<bar> < 1 / 100000 then end_shift_length ap
         else
           (let start_weight = (end_longitudinal ap - arc) / getRelativeLongitudinal d ap
            in start_weight * start_shift_length ap
                 + (1.0 - start_weight) * end_shift_length ap))
      else 0.0)"

subsection \<open>Small predicates of the filter\<close>

primrec scan_crosswalks :: "Lib \<Rightarrow> Point2d \<Rightarrow> Lanelet list \<Rightarrow> bool" where
  "scan_crosswalks lib p_object [] = False"
| "scan_crosswalks lib p_object (crosswalk # rest) =
     (if distance_point_polygon lib p_object (correct_polygon lib (polygon2d crosswalk)) < 2.0
      then True
      else scan_crosswalks lib p_object rest)"

definition isWithinCrosswalk :: "ObjectData \<Rightarrow> RouteHandler \<Rightarrow> Lib \<Rightarrow> bool" where
  "isWithinCrosswalk obj overall_graphs lib =
     (let p = position (initial_pose (object obj));
          p_object = (px p, py p);
          conflicts = conflictingInGraph overall_graphs (overhang_lanelet obj) 1
      in scan_crosswalks lib p_object conflicts)"

definition calcShiftLength :: "bool \<Rightarrow> real \<Rightarrow> real \<Rightarrow> real" where
  "calcShiftLength is_object_on_right overhang_dist_v avoid_margin_v =
     (let shift_length =
            (if is_object_on_right then overhang_dist_v + avoid_margin_v
             else overhang_dist_v - avoid_margin_v)
      in if \<bar>shift_length\<bar> > 1 / 1000 then shift_length else 0.0)"

definition isShiftNecessary :: "bool \<Rightarrow> real \<Rightarrow> bool" where
  "isShiftNecessary is_object_on_right shift_length =
     (if is_object_on_right \<and> shift_length < 0.0 then False
      else if \<not> is_object_on_right \<and> shift_length > 0.0 then False
      else True)"

subsection \<open>\<open>fillLongitudinalAndLengthByClosestEnvelopeFootprint\<close>\<close>

primrec footprint_range ::
  "Lib \<Rightarrow> PathPointWithLaneId list \<Rightarrow> Point \<Rightarrow> Point2d list \<Rightarrow> real \<times> real \<Rightarrow> real \<times> real" where
  "footprint_range lib path_points ego_pos [] acc = acc"
| "footprint_range lib path_points ego_pos (p # rest) acc =
     (let arc_len = calcSignedArcLength lib path_points ego_pos \<lparr>px = fst p, py = snd p, pz = 0.0\<rparr>
      in footprint_range lib path_points ego_pos rest
           (min (fst acc) arc_len, max (snd acc) arc_len))"

definition fillLongitudinalAndLengthByClosestEnvelopeFootprint ::
  "Lib \<Rightarrow> PathWithLaneId \<Rightarrow> Point \<Rightarrow> ObjectData \<Rightarrow> ObjectData" where
  "fillLongitudinalAndLengthByClosestEnvelopeFootprint lib path ego_pos obj =
     (let r = footprint_range lib (points path) ego_pos (envelope_poly obj) (DBL_MAX, - DBL_MAX)
      in obj\<lparr>longitudinal := fst r, length_obj := snd r - fst r\<rparr>)"

subsection \<open>\<open>extendToRoadShoulderDistanceWithPolygon\<close>\<close>

primrec collect_hatched_polygons :: "Lib \<Rightarrow> Point list \<Rightarrow> Polygon3d list \<Rightarrow> Polygon3d list" where
  "collect_hatched_polygons lib [] expandable_polygons = expandable_polygons"
| "collect_hatched_polygons lib (point # rest) expandable_polygons =
     collect_hatched_polygons lib rest
       (case getPolygonByPoint lib point ''hatched_road_markings'' of
          None \<Rightarrow> expandable_polygons
        | Some new_polygon_candidate \<Rightarrow>
            if list_ex (\<lambda>polygon. poly_id polygon = poly_id new_polygon_candidate)
                 expandable_polygons
            then expandable_polygons
            else expandable_polygons @ [new_polygon_candidate])"

definition collect_expandable_polygons ::
  "RouteHandler \<Rightarrow> Lib \<Rightarrow> LineString \<Rightarrow> Lanelet \<Rightarrow> bool \<Rightarrow> bool \<Rightarrow> error + Polygon3d list" where
  "collect_expandable_polygons rh lib target_line overhang_lanelet_v hatched areas =
     (let hatched_polygons =
            (if hatched then collect_hatched_polygons lib (ls_points target_line) [] else [])
      in if areas then
           (let area_id_str = attributeOr overhang_lanelet_v ''intersection_area'' ''else''
            in if area_id_str \<noteq> ''else'' then
                 (case polygonLayer_get rh (atoi lib area_id_str) of
                    None \<Rightarrow> Inl NoSuchPrimitive
                  | Some polygon \<Rightarrow> Inr (hatched_polygons @ [polygon]))
               else Inr hatched_polygons)
         else Inr hatched_polygons)"

text \<open>
  The block that projects the extension ray: the point of the target line closest to the
  overhang position, moved away from the overhang position by the factor
  \<open>100.0 / to_road_shoulder_distance\<close>.
\<close>

definition ray_ratio :: "real \<Rightarrow> fdouble" where
  "ray_ratio to_road_shoulder_distance_v = ddiv 100.0 to_road_shoulder_distance_v"

definition calcLatOffsetOverhangPos :: "Lib \<Rightarrow> LineString \<Rightarrow> real \<Rightarrow> Point \<Rightarrow> Point \<Rightarrow> FPoint" where
  "calcLatOffsetOverhangPos lib target_line to_road_shoulder_distance_v overhang_pos
       overhang_basic_pose =
     (let arc_coordinates =
            (toArcCoordinates lib target_line (px overhang_basic_pose, py overhang_basic_pose))
              \<lparr>arc_distance := 0.0\<rparr>;
          closest_target_line_point = fromArcCoordinates lib target_line arc_coordinates;
          ratio = ray_ratio to_road_shoulder_distance_v
      in (dadd (fst closest_target_line_point)
            (dmul (fst closest_target_line_point - px overhang_pos) ratio),
          dadd (snd closest_target_line_point)
            (dmul (snd closest_target_line_point - py overhang_pos) ratio)))"

definition polygon_edges :: "Point list \<Rightarrow> (Point \<times> Point) list" where
  "polygon_edges ps =
     map (\<lambda>i. (\<lparr>px = px (ps ! i), py = py (ps ! i), pz = 0.0\<rparr>,
                \<lparr>px = px (ps ! ((i + 1) mod length ps)),
                 py = py (ps ! ((i + 1) mod length ps)), pz = 0.0\<rparr>))
       [0..<length ps]"

definition intersect_dist_vec :: "Lib \<Rightarrow> Point \<Rightarrow> FPoint \<Rightarrow> Polygon3d \<Rightarrow> real list" where
  "intersect_dist_vec lib overhang_pos lat_offset_overhang_pos polygon =
     List.map_filter
       (\<lambda>(polygon_current_point, polygon_next_point).
          map_option (\<lambda>intersect_pos. calcDistance2d lib intersect_pos overhang_pos)
            (intersect lib overhang_pos lat_offset_overhang_pos
               polygon_current_point polygon_next_point))
       (polygon_edges (poly_points polygon))"

primrec update_with_polygons :: "Lib \<Rightarrow> Point \<Rightarrow> FPoint \<Rightarrow> Polygon3d list \<Rightarrow> real \<Rightarrow> real" where
  "update_with_polygons lib overhang_pos lat_offset_overhang_pos [] updated = updated"
| "update_with_polygons lib overhang_pos lat_offset_overhang_pos (polygon # rest) updated =
     update_with_polygons lib overhang_pos lat_offset_overhang_pos rest
       (let v = intersect_dist_vec lib overhang_pos lat_offset_overhang_pos polygon
        in if v = [] then updated else max updated (last (sort v)))"

definition extendToRoadShoulderDistanceWithPolygon ::
  "RouteHandler \<Rightarrow> Lib \<Rightarrow> LineString \<Rightarrow> real \<Rightarrow> Lanelet \<Rightarrow> Point \<Rightarrow> Point \<Rightarrow> bool \<Rightarrow> bool
     \<Rightarrow> error + real" where
  "extendToRoadShoulderDistanceWithPolygon rh lib target_line to_road_shoulder_distance_v
       overhang_lanelet_v overhang_pos overhang_basic_pose hatched areas =
     bindE (collect_expandable_polygons rh lib target_line overhang_lanelet_v hatched areas)
       (\<lambda>expandable_polygons.
          if expandable_polygons = [] then Inr to_road_shoulder_distance_v
          else
            (let lat_offset_overhang_pos =
                   calcLatOffsetOverhangPos lib target_line to_road_shoulder_distance_v
                     overhang_pos overhang_basic_pose
             in Inr (update_with_polygons lib overhang_pos lat_offset_overhang_pos
                       expandable_polygons to_road_shoulder_distance_v)))"

subsection \<open>\<open>filterTargetObjects\<close>: data\<close>

record AvoidancePlanningData =
  current_lanelets :: "Lanelet list"
  reference_path_rough :: PathWithLaneId
  target_objects :: "ObjectData list"
  other_objects :: "ObjectData list"

record DebugData =
  bounds :: "LineString list"

text \<open>
  What one pass of the loop body does with its object: \<open>push_back\<close> on the target
  objects, \<open>push_back\<close> on the other objects, or \<open>continue\<close> without either. The
  object carried is the element of \<open>objects\<close> as the pass leaves it.
\<close>

datatype outcome = Target ObjectData | Other ObjectData | Dropped ObjectData

text \<open>A part of the loop body either ends the pass or hands its state to the next part.\<close>

datatype 'a step = Done outcome | Next 'a

fun object_of :: "outcome \<Rightarrow> ObjectData" where
  "object_of (Target obj) = obj"
| "object_of (Other obj) = obj"
| "object_of (Dropped obj) = obj"

fun apply_outcome :: "outcome \<Rightarrow> AvoidancePlanningData \<Rightarrow> AvoidancePlanningData" where
  "apply_outcome (Target obj) data = data\<lparr>target_objects := target_objects data @ [obj]\<rparr>"
| "apply_outcome (Other obj) data = data\<lparr>other_objects := other_objects data @ [obj]\<rparr>"
| "apply_outcome (Dropped obj) data = data"

definition reject :: "reason_text \<Rightarrow> ObjectData \<Rightarrow> outcome" where
  "reject r obj = Other (obj\<lparr>reason := r\<rparr>)"

definition accept :: "Time \<Rightarrow> real option \<Rightarrow> ObjectData \<Rightarrow> outcome" where
  "accept now avoid_margin_v obj = Target (obj\<lparr>last_seen := now, avoid_margin := avoid_margin_v\<rparr>)"

subsection \<open>The loop that extends the lanelets\<close>

text \<open>
  The loop runs while \<open>rclcpp::ok()\<close>; it has no bound of its own, so the model is a
  partial function and \<open>None\<close> means that the loop does not end. It is entered with a
  non-empty list only, and the list only grows.
\<close>

partial_function (option) extend_lanelets_loop ::
  "RouteHandler \<Rightarrow> Lib \<Rightarrow> Pose \<Rightarrow> real \<Rightarrow> Lanelet list \<Rightarrow> Lanelet list option" where
  "extend_lanelets_loop rh lib ego_pose forward_path_length_v extend_lanelets =
     (if \<not> rclcpp_ok lib then Some extend_lanelets
      else if getNextLanelets rh (last extend_lanelets) = [] then Some extend_lanelets
      else if getLaneletLength2d lib extend_lanelets
                - arc_length (getArcCoordinates lib extend_lanelets ego_pose)
              < forward_path_length_v
      then extend_lanelets_loop rh lib ego_pose forward_path_length_v
             (extend_lanelets @ [hd (getNextLanelets rh (last extend_lanelets))])
      else Some extend_lanelets)"

subsection \<open>The loop body, part 1: type, motion and range\<close>

text \<open>
  From the test of the target type to the test of the distance to the goal; the object
  handed on has its arc length and its length along the path filled in.
\<close>

definition check_type_and_range ::
  "Lib \<Rightarrow> PathWithLaneId \<Rightarrow> Point \<Rightarrow> real \<Rightarrow> AvoidanceParameters \<Rightarrow> ObjectParameter
     \<Rightarrow> ObjectData \<Rightarrow> ObjectData step" where
  "check_type_and_range lib path ego_pos dist_to_goal params object_parameter obj =
     (if \<not> isTargetObjectType (object obj) params then
        Done (reject (Factor OBJECT_IS_NOT_TYPE) obj)
      else if dgreater (move_time obj) (moving_time_threshold object_parameter) then
        Done (reject (Factor MOVING_OBJECT) obj)
      else
        (let obj1 = fillLongitudinalAndLengthByClosestEnvelopeFootprint lib path ego_pos obj
         in if longitudinal obj1 < - object_check_backward_distance params then
              Done (reject (Factor OBJECT_IS_BEHIND_THRESHOLD) obj1)
            else if longitudinal obj1 > object_check_max_forward_distance params then
              Done (reject (Factor OBJECT_IS_IN_FRONT_THRESHOLD) obj1)
            else if longitudinal obj1 > dist_to_goal then
              Done (reject (Factor OBJECT_BEHIND_PATH_GOAL) obj1)
            else if longitudinal obj1 + length_obj obj1 / 2 + object_check_goal_distance params
                      > dist_to_goal then
              Done (reject (Literal ''TooNearToGoal'') obj1)
            else Next obj1))"

subsection \<open>The loop body, part 2: closest lanelet and distance to the road shoulder\<close>

text \<open>
  From the call of \<open>getClosestLaneletWithinRoute\<close> to the call of
  \<open>extendToRoadShoulderDistanceWithPolygon\<close>.
\<close>

text \<open>The lambda \<open>update_road_to_shoulder_distance\<close>, on the pair of the object and \<open>target_line\<close>.\<close>

definition update_road_to_shoulder_distance ::
  "RouteHandler \<Rightarrow> Lib \<Rightarrow> AvoidanceParameters \<Rightarrow> ObjectData \<times> LineString \<Rightarrow> Lanelet
     \<Rightarrow> error + ObjectData \<times> LineString" where
  "update_road_to_shoulder_distance rh lib params st target_lanelet =
     (let obj = fst st;
          get_left = (isOnRight obj \<and> use_adjacent_lane params);
          get_right = (\<not> isOnRight obj \<and> use_adjacent_lane params);
          get_opposite = use_opposite_lane params;
          lines = getFurthestLinestring rh target_lanelet get_right get_left get_opposite True
      in if lines = [] then Inl EmptyContainer
         else
           (let line = (if isOnRight obj then last lines else hd lines);
                d = distance_polygon_line lib (envelope_poly obj) line
            in if d < to_road_shoulder_distance obj
               then Inr (obj\<lparr>to_road_shoulder_distance := d\<rparr>, line)
               else Inr st))"

definition fill_road_shoulder_distance ::
  "RouteHandler \<Rightarrow> Lib \<Rightarrow> AvoidanceParameters \<Rightarrow> ObjectData \<Rightarrow> Lanelet
     \<Rightarrow> error + ObjectData \<times> LineString" where
  "fill_road_shoulder_distance rh lib params obj overhang_lanelet_v =
     (let obj0 = obj\<lparr>overhang_lanelet := overhang_lanelet_v,
                     to_road_shoulder_distance := DBL_MAX\<rparr>;
          overhang_basic_pose = position (overhang_pose obj0)
      in bindE (update_road_to_shoulder_distance rh lib params
                  (obj0, \<lparr>ls_id = 0, ls_points = []\<rparr>) overhang_lanelet_v)
         (\<lambda>s1. bindE
            (case getPreviousLaneletsWithinRoute rh overhang_lanelet_v of
               None \<Rightarrow> Inr s1
             | Some previous_lanelet \<Rightarrow>
                 (case previous_lanelet of
                    [] \<Rightarrow> Inl EmptyContainer
                  | front # _ \<Rightarrow> update_road_to_shoulder_distance rh lib params s1 front))
         (\<lambda>s2. bindE
            (case getNextLaneletWithinRoute rh overhang_lanelet_v of
               None \<Rightarrow> Inr s2
             | Some next_lanelet \<Rightarrow>
                 update_road_to_shoulder_distance rh lib params s2 next_lanelet)
         (\<lambda>s3. bindE
            (extendToRoadShoulderDistanceWithPolygon rh lib (snd s3)
               (to_road_shoulder_distance (fst s3)) overhang_lanelet_v
               (position (overhang_pose (fst s3))) overhang_basic_pose
               (use_hatched_road_markings params) (use_intersection_areas params))
         (\<lambda>d. Inr ((fst s3)\<lparr>to_road_shoulder_distance := d\<rparr>, snd s3))))))"

text \<open>
  The state handed on is the object, the local \<open>overhang_lanelet\<close> and the lines pushed
  on \<open>debug.bounds\<close>.
\<close>

definition locate_road_shoulder ::
  "RouteHandler \<Rightarrow> Lib \<Rightarrow> AvoidanceParameters \<Rightarrow> Pose \<Rightarrow> ObjectData
     \<Rightarrow> error + (ObjectData \<times> Lanelet \<times> LineString list) step" where
  "locate_road_shoulder rh lib params object_closest_pose obj =
     (case getClosestLaneletWithinRoute rh object_closest_pose of
        None \<Rightarrow> Inr (Done (Dropped obj))
      | Some overhang_lanelet_v \<Rightarrow>
          if lanelet_id overhang_lanelet_v \<noteq> 0 then
            bindE (fill_road_shoulder_distance rh lib params obj overhang_lanelet_v)
              (\<lambda>r. Inr (Next (fst r, overhang_lanelet_v, [snd r])))
          else Inr (Next (obj, overhang_lanelet_v, [])))"

subsection \<open>The loop body, part 3: the avoid margin\<close>

text \<open>
  The lambda that selects \<open>avoid_margin\<close>, with the four constants before it, and the two
  tests of the shift length that follow when a margin exists.
\<close>

definition calcAvoidMargin ::
  "ObjectParameter \<Rightarrow> AvoidanceParameters \<Rightarrow> real \<Rightarrow> ObjectData \<Rightarrow> real option" where
  "calcAvoidMargin object_parameter params vehicle_width_v obj =
     (let max_avoid_margin =
            safety_buffer_lateral object_parameter * distance_factor obj +
            avoid_margin_lateral object_parameter + 0.5 * vehicle_width_v;
          min_avoid_margin = safety_buffer_lateral object_parameter + 0.5 * vehicle_width_v;
          soft_lateral_distance_limit =
            to_road_shoulder_distance obj - soft_road_shoulder_margin params
              - 0.5 * vehicle_width_v;
          hard_lateral_distance_limit =
            to_road_shoulder_distance obj - hard_road_shoulder_margin params
              - 0.5 * vehicle_width_v
      in if hard_lateral_distance_limit < min_avoid_margin then None
         else if soft_lateral_distance_limit < min_avoid_margin then Some min_avoid_margin
         else Some (min soft_lateral_distance_limit max_avoid_margin))"

definition check_shift_length ::
  "AvoidanceParameters \<Rightarrow> real option \<Rightarrow> ObjectData \<Rightarrow> ObjectData step" where
  "check_shift_length params avoid_margin_v obj =
     (case avoid_margin_v of
        None \<Rightarrow> Next obj
      | Some m \<Rightarrow>
          (let shift_length = calcShiftLength (isOnRight obj) (overhang_dist obj) m
           in if \<not> isShiftNecessary (isOnRight obj) shift_length then
                Done (reject (Literal ''NotNeedAvoidance'') obj)
              else if \<bar>shift_length\<bar> < lateral_execution_threshold params then
                Done (reject (Literal ''LessThanExecutionThreshold'') obj)
              else Next obj))"

subsection \<open>The loop body, part 4: objects that are not vehicles\<close>

text \<open>The branch under \<open>!isVehicleTypeObject(o)\<close>; it always ends the pass.\<close>

definition classify_non_vehicle ::
  "RouteHandler \<Rightarrow> Lib \<Rightarrow> Time \<Rightarrow> real option \<Rightarrow> ObjectData \<Rightarrow> outcome" where
  "classify_non_vehicle rh lib now avoid_margin_v obj =
     (if isWithinCrosswalk obj rh lib then reject (Literal ''CrosswalkUser'') obj
      else accept now avoid_margin_v obj)"

subsection \<open>The loop body, part 5: vehicles stopped for a long time\<close>

text \<open>The forced avoidance of a vehicle that has been standing longer than the threshold.\<close>

definition check_force_avoidance ::
  "Lib \<Rightarrow> AvoidanceParameters \<Rightarrow> Pose \<Rightarrow> Lanelet list \<Rightarrow> Time \<Rightarrow> real option \<Rightarrow> ObjectData
     \<Rightarrow> ObjectData step" where
  "check_force_avoidance lib params ego_pose extend_lanelets now avoid_margin_v obj =
     (let stop_time_longer_than_threshold =
            (stop_time obj > threshold_time_force_avoidance_for_stopped_vehicle params)
      in if stop_time_longer_than_threshold \<and> enable_force_avoidance_for_stopped_vehicle params
         then
           (let to_traffic_light =
                  getDistanceToNextTrafficLight lib (initial_pose (object obj)) extend_lanelets;
                not_parked_object0 =
                  (to_traffic_light
                     < object_ignore_section_traffic_light_in_front_distance params);
                to_crosswalk =
                  getDistanceToCrosswalk lib ego_pose extend_lanelets - longitudinal obj;
                stop_for_crosswalk =
                  (to_crosswalk < object_ignore_section_crosswalk_in_front_distance params \<and>
                   to_crosswalk
                     > - 1.0 * object_ignore_section_crosswalk_behind_distance params);
                not_parked_object = (not_parked_object0 \<or> stop_for_crosswalk);
                obj1 = obj\<lparr>to_stop_factor_distance := min to_traffic_light to_crosswalk\<rparr>
            in if \<not> not_parked_object then Done (accept now avoid_margin_v obj1)
               else Next obj1)
         else Next obj)"

subsection \<open>The loop body, part 6: centerline and parked vehicles\<close>

text \<open>
  From the test of the distance to the centerline to the end of the body: an object in the
  ego lane is accepted only as a parked vehicle.
\<close>

primrec pick_road_shoulder :: "Lanelet list \<Rightarrow> Lanelet \<Rightarrow> error + Lanelet" where
  "pick_road_shoulder [] most_lanelet = Inr most_lanelet"
| "pick_road_shoulder (ll # rest) most_lanelet =
     (case attribute ll ''subtype'' of
        Inl e \<Rightarrow> Inl e
      | Inr sub_type \<Rightarrow>
          pick_road_shoulder rest (if sub_type = ''road_shoulder'' then ll else most_lanelet))"

text \<open>
  The two lambdas that return the shiftable distance and the subtype of the outermost
  road lanelet; \<open>left\<close> selects the left one.
\<close>

definition shiftable_distance ::
  "RouteHandler \<Rightarrow> Lib \<Rightarrow> bool \<Rightarrow> Lanelet \<Rightarrow> Point \<Rightarrow> ObjectData \<Rightarrow> error + real \<times> string" where
  "shiftable_distance rh lib left overhang_lanelet_v centerline_point obj =
     (let most_road_lanelet =
            (if left then getMostLeftLanelet rh overhang_lanelet_v
             else getMostRightLanelet rh overhang_lanelet_v);
          bound_of = (\<lambda>ll. if left then leftBound ll else rightBound ll);
          candidates = findUsages rh (bound_of most_road_lanelet)
      in bindE (attribute most_road_lanelet ''subtype'')
         (\<lambda>sub_type. bindE (pick_road_shoulder candidates most_road_lanelet)
         (\<lambda>most_lanelet.
            Inr (distance2d lib (bound_of most_lanelet) centerline_point
                   - 0.5 * shape_dimensions_y (object obj), sub_type))))"

definition side_parked ::
  "RouteHandler \<Rightarrow> Lib \<Rightarrow> AvoidanceParameters \<Rightarrow> bool \<Rightarrow> Lanelet \<Rightarrow> Point \<Rightarrow> ObjectData
     \<Rightarrow> error + ObjectData \<times> bool" where
  "side_parked rh lib params left overhang_lanelet_v centerline_point obj =
     bindE (shiftable_distance rh lib left overhang_lanelet_v centerline_point obj)
       (\<lambda>r. let object_shiftable_distance =
                   (if snd r \<noteq> ''road_shoulder''
                    then fst r + object_check_min_road_shoulder_width params
                    else fst r);
                 arc_coordinates =
                   toArcCoordinates lib (centerline overhang_lanelet_v) (centroid obj);
                 ratio =
                   (if left then ddiv (arc_distance arc_coordinates) object_shiftable_distance
                    else ddiv (- 1.0 * arc_distance arc_coordinates) object_shiftable_distance)
             in Inr (obj\<lparr>shiftable_ratio := ratio\<rparr>,
                     dgreater ratio (object_check_shiftable_ratio params)))"

definition check_parked ::
  "RouteHandler \<Rightarrow> Lib \<Rightarrow> AvoidanceParameters \<Rightarrow> Lanelet \<Rightarrow> Time \<Rightarrow> real option \<Rightarrow> ObjectData
     \<Rightarrow> error + outcome" where
  "check_parked rh lib params overhang_lanelet_v now avoid_margin_v obj =
     (if \<bar>lateral obj\<bar> < threshold_distance_object_is_on_center params then
        Inr (reject (Factor TOO_NEAR_TO_CENTERLINE) obj)
      else if within_point_polygon lib (centroid obj) (polygon2d overhang_lanelet_v) then
        (let turn_direction = attributeOr overhang_lanelet_v ''turn_direction'' ''else''
         in if turn_direction = ''right'' \<or> turn_direction = ''left''
                 \<or> turn_direction = ''straight'' then
              Inr (reject (Factor NOT_PARKING_OBJECT) obj)
            else
              (let centerline_pose =
                     getClosestCenterPose lib overhang_lanelet_v
                       (position (initial_pose (object obj)));
                   centerline_point = position centerline_pose
               in bindE
                    (if \<not> isOnRight obj
                     then side_parked rh lib params True overhang_lanelet_v centerline_point obj
                     else Inr (obj, False))
                  (\<lambda>l. bindE
                    (if isOnRight (fst l)
                     then side_parked rh lib params False overhang_lanelet_v centerline_point
                            (fst l)
                     else Inr (fst l, False))
                  (\<lambda>r. if \<not> snd l \<and> \<not> snd r then
                          Inr (reject (Factor NOT_PARKING_OBJECT) (fst r))
                        else Inr (accept now avoid_margin_v (fst r))))))
      else Inr (accept now avoid_margin_v obj))"

subsection \<open>The loop body and the loop\<close>

text \<open>
  Everything up to the checks on the shift length; \<open>path\<close> is
  \<open>data.reference_path_rough\<close>. The state handed on is the object, the
  local \<open>overhang_lanelet\<close> and the local \<open>avoid_margin\<close>; the second component of the
  result is what the pass pushed on \<open>debug.bounds\<close>.
\<close>

definition pre_checks ::
  "PlannerData \<Rightarrow> Lib \<Rightarrow> AvoidanceParameters \<Rightarrow> PathWithLaneId \<Rightarrow> real \<Rightarrow> ObjectData
     \<Rightarrow> error + (ObjectData \<times> Lanelet \<times> real option) step \<times> LineString list" where
  "pre_checks planner_data lib params path dist_to_goal obj =
     (let path_points = points path;
          object_closest_index =
            findNearestIndex lib path_points (position (initial_pose (object obj)))
      in if \<not> object_closest_index < length path_points then Inl OutOfRange
         else
           (case object_parameters params (label (object obj)) of
              None \<Rightarrow> Inl OutOfRange
            | Some object_parameter \<Rightarrow>
                (case check_type_and_range lib path (position (self_odometry planner_data))
                        dist_to_goal params object_parameter obj of
                   Done oc \<Rightarrow> Inr (Done oc, [])
                 | Next obj1 \<Rightarrow>
                     bindE (locate_road_shoulder (route_handler planner_data) lib params
                              (point_pose (path_points ! object_closest_index)) obj1)
                       (\<lambda>located.
                          case located of
                            Done oc \<Rightarrow> Inr (Done oc, [])
                          | Next (obj2, overhang_lanelet_v, pushed) \<Rightarrow>
                              (let avoid_margin_v =
                                     calcAvoidMargin object_parameter params
                                       (vehicle_width (parameters planner_data)) obj2
                               in case check_shift_length params avoid_margin_v obj2 of
                                    Done oc \<Rightarrow> Inr (Done oc, pushed)
                                  | Next obj3 \<Rightarrow>
                                      Inr (Next (obj3, overhang_lanelet_v, avoid_margin_v),
                                           pushed))))))"

definition post_checks ::
  "PlannerData \<Rightarrow> Lib \<Rightarrow> AvoidanceParameters \<Rightarrow> Lanelet list \<Rightarrow> Time
     \<Rightarrow> ObjectData \<times> Lanelet \<times> real option \<Rightarrow> error + outcome" where
  "post_checks planner_data lib params extend_lanelets now st =
     (case st of (obj, overhang_lanelet_v, avoid_margin_v) \<Rightarrow>
        if \<not> isVehicleTypeObject obj then
          Inr (classify_non_vehicle (route_handler planner_data) lib now avoid_margin_v obj)
        else
          (case check_force_avoidance lib params (self_odometry planner_data) extend_lanelets
                  now avoid_margin_v obj of
             Done oc \<Rightarrow> Inr oc
           | Next obj1 \<Rightarrow>
               check_parked (route_handler planner_data) lib params overhang_lanelet_v now
                 avoid_margin_v obj1))"

definition filter_object ::
  "PlannerData \<Rightarrow> Lib \<Rightarrow> AvoidanceParameters \<Rightarrow> PathWithLaneId \<Rightarrow> real \<Rightarrow> Lanelet list
     \<Rightarrow> Time \<Rightarrow> ObjectData \<Rightarrow> error + outcome \<times> LineString list" where
  "filter_object planner_data lib params path dist_to_goal extend_lanelets now obj =
     bindE (pre_checks planner_data lib params path dist_to_goal obj)
       (\<lambda>r. case fst r of
               Done oc \<Rightarrow> Inr (oc, snd r)
             | Next st \<Rightarrow>
                 bindE (post_checks planner_data lib params extend_lanelets now st)
                   (\<lambda>oc. Inr (oc, snd r)))"

text \<open>
  The loop over \<open>objects\<close>. The accumulator holds the elements already visited, the
  planning data and the debug data; \<open>path\<close> in the loop body is
  \<open>data.reference_path_rough\<close>, which the loop does not change.
\<close>

primrec filter_loop ::
  "PlannerData \<Rightarrow> Lib \<Rightarrow> AvoidanceParameters \<Rightarrow> real \<Rightarrow> Lanelet list \<Rightarrow> Time
     \<Rightarrow> ObjectData list \<Rightarrow> ObjectData list \<times> AvoidancePlanningData \<times> DebugData
     \<Rightarrow> error + ObjectData list \<times> AvoidancePlanningData \<times> DebugData" where
  "filter_loop planner_data lib params dist_to_goal extend_lanelets now [] acc = Inr acc"
| "filter_loop planner_data lib params dist_to_goal extend_lanelets now (obj # rest) acc =
     (case acc of (visited, data, debug) \<Rightarrow>
        (case filter_object planner_data lib params (reference_path_rough data) dist_to_goal
                extend_lanelets now obj of
           Inl e \<Rightarrow> Inl e
         | Inr r \<Rightarrow>
             filter_loop planner_data lib params dist_to_goal extend_lanelets now rest
               (visited @ [object_of (fst r)], apply_outcome (fst r) data,
                debug\<lparr>bounds := bounds debug @ snd r\<rparr>)))"

text \<open>
  \<open>now\<close> is the reading of the ROS clock at the start of the call. The result is \<open>None\<close>
  when the call does not return, an error when it throws, and otherwise the three
  arguments passed by reference as the call leaves them. When the call throws, what it has
  already written to its arguments is not part of the result.
\<close>

definition filterTargetObjects ::
  "ObjectData list \<Rightarrow> AvoidancePlanningData \<Rightarrow> DebugData \<Rightarrow> PlannerData \<Rightarrow> Lib
     \<Rightarrow> AvoidanceParameters \<Rightarrow> Time
     \<Rightarrow> (error + ObjectData list \<times> AvoidancePlanningData \<times> DebugData) option" where
  "filterTargetObjects objects data debug planner_data lib params now =
     (if current_lanelets data = [] then Some (Inr (objects, data, debug))
      else
        (let rh = route_handler planner_data;
             path_points = points (reference_path_rough data);
             ego_idx = findEgoIndex planner_data path_points;
             dist_to_goal =
               (if isInGoalRouteSection rh (last (current_lanelets data))
                then calcSignedArcLengthIdx lib path_points ego_idx
                       (if path_points = [] then 2 ^ 64 - 1 else length path_points - 1)
                else DBL_MAX)
         in case extend_lanelets_loop rh lib (self_odometry planner_data)
                   (forward_path_length (parameters planner_data)) (current_lanelets data) of
              None \<Rightarrow> None
            | Some extend_lanelets \<Rightarrow>
                Some (filter_loop planner_data lib params dist_to_goal extend_lanelets now
                        objects ([], data, debug))))"

section \<open>Statements taken from the specification\<close>

subsection \<open>The avoid margin and duplicate shift lines\<close>

text \<open>
  The avoid margin as the specification words it: the maximal and the minimal margin, the
  soft and the hard lateral limit, and the selection among them.
\<close>

definition avoid_margin_spec ::
  "real \<Rightarrow> real \<Rightarrow> real \<Rightarrow> real \<Rightarrow> real \<Rightarrow> real \<Rightarrow> real \<Rightarrow> real option" where
  "avoid_margin_spec safety_buffer distance_factor_v avoid_margin_lat width soft_margin
       hard_margin shoulder_distance =
     (let max_margin = safety_buffer * distance_factor_v + avoid_margin_lat + 0.5 * width;
          min_margin = safety_buffer + 0.5 * width;
          soft_limit = shoulder_distance - soft_margin - 0.5 * width;
          hard_limit = shoulder_distance - hard_margin - 0.5 * width
      in if hard_limit < min_margin then None
         else if soft_limit < min_margin then Some min_margin
         else Some (min soft_limit max_margin))"

text \<open>
  An added line is a duplicate when some base line has the same object identifier, start
  and end within 1.0 m and end shift length within 0.5 m.
\<close>

definition duplicate_of_base :: "Lib \<Rightarrow> AvoidLine list \<Rightarrow> AvoidLine \<Rightarrow> bool" where
  "duplicate_of_base lib base_lines added_line =
     (\<exists>base_line \<in> set base_lines.
        object_id (object (line_object added_line))
          = object_id (object (line_object base_line)) \<and>
        calcDistance2d lib (position (start_pose added_line))
          (position (start_pose base_line)) \<le> 1.0 \<and>
        calcDistance2d lib (position (end_pose added_line))
          (position (end_pose base_line)) \<le> 1.0 \<and>
        \<bar>end_shift_length added_line - end_shift_length base_line\<bar> \<le> 0.5)"

subsection \<open>The envelope over consecutive cycles\<close>







subsection \<open>The filter without the clock\<close>

text \<open>
  The result of the filter with the clock reading removed from the places where the filter
  writes it: \<open>last_seen\<close> of the objects it accepts.
\<close>

definition forget_last_seen :: "ObjectData \<Rightarrow> ObjectData" where
  "forget_last_seen obj = obj\<lparr>last_seen := 0\<rparr>"

fun forget_outcome :: "outcome \<Rightarrow> outcome" where
  "forget_outcome (Target obj) = Target (forget_last_seen obj)"
| "forget_outcome (Other obj) = Other obj"
| "forget_outcome (Dropped obj) = Dropped obj"

definition without_clock ::
  "ObjectData list \<times> AvoidancePlanningData \<times> DebugData
     \<Rightarrow> ObjectData list \<times> AvoidancePlanningData \<times> DebugData" where
  "without_clock r =
     (case r of (objects, data, debug) \<Rightarrow>
        (map forget_last_seen objects,
         data\<lparr>target_objects := map forget_last_seen (target_objects data)\<rparr>,
         debug))"

section \<open>A sample scene\<close>

text \<open>
  A straight road along the x axis, 8 m wide, with the ego vehicle at the origin, a
  crosswalk between x = 30 and x = 33, and collaborators that are exact on this scene:
  polygons are axis-aligned boxes and lines are horizontal.
\<close>

definition pose_at :: "real \<Rightarrow> real \<Rightarrow> Pose" where
  "pose_at x y = \<lparr>position = \<lparr>px = x, py = y, pz = 0\<rparr>, orientation = \<lparr>qx = 0, qy = 0, qz = 0, qw = 1\<rparr>\<rparr>"

fun bbox :: "Polygon2d \<Rightarrow> Point2d \<times> Point2d" where
  "bbox [] = ((0, 0), (0, 0))"
| "bbox (q # qs) =
     ((fold min (map fst qs) (fst q), fold min (map snd qs) (snd q)),
      (fold max (map fst qs) (fst q), fold max (map snd qs) (snd q)))"

definition box_polygon :: "Point2d \<times> Point2d \<Rightarrow> Polygon2d" where
  "box_polygon b = (case b of ((x0, y0), (x1, y1)) \<Rightarrow> [(x0, y0), (x0, y1), (x1, y1), (x1, y0), (x0, y0)])"

definition level_line :: "int \<Rightarrow> real \<Rightarrow> LineString" where
  "level_line ident y = \<lparr>ls_id = ident, ls_points = [\<lparr>px = 0, py = y, pz = 0\<rparr>, \<lparr>px = 100, py = y, pz = 0\<rparr>]\<rparr>"

definition sample_lanelet :: Lanelet where
  "sample_lanelet =
     \<lparr>lanelet_id = 1, attributes = [(''subtype'', ''road'')],
      leftBound = level_line 11 4, rightBound = level_line 12 (- 4),
      centerline = level_line 13 0,
      polygon2d = box_polygon ((0, - 4), (100, 4))\<rparr>"

definition sample_crosswalk :: Lanelet where
  "sample_crosswalk =
     \<lparr>lanelet_id = 2, attributes = [(''subtype'', ''crosswalk'')],
      leftBound = level_line 21 4, rightBound = level_line 22 (- 4),
      centerline = level_line 23 0,
      polygon2d = box_polygon ((30, - 4), (33, 4))\<rparr>"

definition sample_route_handler :: RouteHandler where
  "sample_route_handler =
     \<lparr>getLaneletsFromId = (\<lambda>i. if i = 1 then Inr sample_lanelet else Inl ''no such lanelet''),
      getLaneletSequence = (\<lambda>ll backward forward. [ll]),
      isInGoalRouteSection = (\<lambda>ll. False),
      getNextLanelets = (\<lambda>ll. []),
      getClosestLaneletWithinRoute = (\<lambda>pose. Some sample_lanelet),
      getFurthestLinestring = (\<lambda>ll r l opp inv. [rightBound ll, leftBound ll]),
      getPreviousLaneletsWithinRoute = (\<lambda>ll. None),
      getNextLaneletWithinRoute = (\<lambda>ll. None),
      conflictingInGraph = (\<lambda>ll graph. if graph = 1 then [sample_crosswalk] else []),
      getMostLeftLanelet = (\<lambda>ll. ll),
      getMostRightLanelet = (\<lambda>ll. ll),
      findUsages = (\<lambda>line. []),
      polygonLayer_get = (\<lambda>i. None)\<rparr>"

text \<open>The distance of a box to a horizontal line that does not cross it.\<close>

definition level_distance :: "Polygon2d \<Rightarrow> LineString \<Rightarrow> real" where
  "level_distance poly line =
     (case (bbox poly, ls_points line) of
        (((x0, y0), (x1, y1)), q # _) \<Rightarrow> min \<bar>py q - y0\<bar> \<bar>py q - y1\<bar>
      | (_, []) \<Rightarrow> 0)"

definition box_distance :: "Point2d \<Rightarrow> Polygon2d \<Rightarrow> real" where
  "box_distance p poly =
     (case bbox poly of
        ((x0, y0), (x1, y1)) \<Rightarrow>
          (let dx = max (max (x0 - fst p) (fst p - x1)) 0;
               dy = max (max (y0 - snd p) (snd p - y1)) 0
           in sqrt (dx * dx + dy * dy)))"

definition sample_lib :: Lib where
  "sample_lib =
     \<lparr>rclcpp_ok = True,
      findNearestIndex = (\<lambda>pts p. 0),
      calcSignedArcLengthIdx = (\<lambda>pts i j. 100),
      calcSignedArcLength = (\<lambda>pts a b. px b - px a),
      getLaneletLength2d = (\<lambda>lls. 100),
      getArcCoordinates =
        (\<lambda>lls pose. \<lparr>arc_length = px (position pose), arc_distance = py (position pose)\<rparr>),
      distance_polygon_line = level_distance,
      distance_point_polygon = box_distance,
      correct_polygon = (\<lambda>p. p),
      within_point_polygon =
        (\<lambda>p poly. case bbox poly of
                     ((x0, y0), (x1, y1)) \<Rightarrow> x0 < fst p \<and> fst p < x1 \<and> y0 < snd p \<and> snd p < y1),
      getDistanceToNextTrafficLight = (\<lambda>pose lls. 1000),
      getDistanceToCrosswalk = (\<lambda>pose lls. 30),
      getClosestCenterPose = (\<lambda>ll p. pose_at (px p) 0),
      distance2d = (\<lambda>line p. case ls_points line of [] \<Rightarrow> 0 | q # _ \<Rightarrow> \<bar>py q - py p\<bar>),
      toArcCoordinates =
        (\<lambda>line p. case ls_points line of
                      [] \<Rightarrow> \<lparr>arc_length = 0, arc_distance = 0\<rparr>
                    | q # _ \<Rightarrow> \<lparr>arc_length = fst p, arc_distance = snd p - py q\<rparr>),
      fromArcCoordinates =
        (\<lambda>line arc. case ls_points line of
                        [] \<Rightarrow> (0, 0)
                      | q # _ \<Rightarrow> (arc_length arc, py q + arc_distance arc)),
      getPolygonByPoint = (\<lambda>p layer. None),
      intersect = (\<lambda>a b c d. None),
      calcDistance2d =
        (\<lambda>a b. sqrt ((px a - px b) * (px a - px b) + (py a - py b) * (py a - py b))),
      atoi = (\<lambda>s. 0)\<rparr>"

definition sample_planner_data :: PlannerData where
  "sample_planner_data =
     \<lparr>route_handler = sample_route_handler,
      parameters = \<lparr>vehicle_width = 2, backward_path_length = 5, forward_path_length = 200\<rparr>,
      self_odometry = pose_at 0 0,
      findEgoIndex = (\<lambda>pts. 0)\<rparr>"

definition sample_path :: PathWithLaneId where
  "sample_path =
     \<lparr>points = map (\<lambda>x. \<lparr>point_pose = pose_at x 0, longitudinal_velocity_mps = 5, lane_ids = [1]\<rparr>)
                  [0, 50, 100]\<rparr>"

definition sample_data :: AvoidancePlanningData where
  "sample_data =
     \<lparr>current_lanelets = [sample_lanelet], reference_path_rough = sample_path,
      target_objects = [], other_objects = []\<rparr>"

text \<open>
  An object with a square footprint of the given width, centred at \<open>(x, y)\<close>; its
  envelope is the footprint grown by 0.5 m.
\<close>

definition sample_object :: "UUID \<Rightarrow> ObjectClassification \<Rightarrow> real \<Rightarrow> real \<Rightarrow> real \<Rightarrow> ObjectData" where
  "sample_object ident lbl x y width =
     \<lparr>object = \<lparr>object_id = ident, label = lbl, initial_pose = pose_at x y,
                shape_dimensions_y = width\<rparr>,
      lateral = y, longitudinal = 0, length_obj = 0,
      overhang_dist = (if y < 0 then y + width / 2 + 0.5 else y - width / 2 - 0.5),
      overhang_pose = pose_at x (if y < 0 then y + width / 2 + 0.5 else y - width / 2 - 0.5),
      overhang_lanelet = sample_lanelet,
      envelope_poly =
        box_polygon ((x - width / 2 - 0.5, y - width / 2 - 0.5),
                     (x + width / 2 + 0.5, y + width / 2 + 0.5)),
      centroid = (x, y), to_road_shoulder_distance = 0,
      distance_factor = 1, to_stop_factor_distance = 0, shiftable_ratio = Finite 0,
      move_time = Finite 0, stop_time = 0, last_seen = 0, avoid_margin = None,
      avoid_required = False, reason = Literal ''''\<rparr>"

definition sample_object_parameter :: ObjectParameter where
  "sample_object_parameter =
     \<lparr>is_target = True, moving_speed_threshold = 1, moving_time_threshold = 1,
      envelope_buffer_margin = 0.5, avoid_margin_lateral = 1, safety_buffer_lateral = 0.5\<rparr>"

definition sample_parameters :: AvoidanceParameters where
  "sample_parameters =
     \<lparr>object_parameters = [CAR \<mapsto> sample_object_parameter, PEDESTRIAN \<mapsto> sample_object_parameter,
         UNKNOWN \<mapsto> sample_object_parameter\<lparr>envelope_buffer_margin := 0\<rparr>],
      hysteresis_factor_expand_rate = 2,
      object_check_backward_distance = 2,
      object_check_max_forward_distance = 150,
      object_check_goal_distance = 20,
      use_adjacent_lane = True, use_opposite_lane = True,
      use_hatched_road_markings = True, use_intersection_areas = False,
      soft_road_shoulder_margin = 0.8, hard_road_shoulder_margin = 0.3,
      lateral_execution_threshold = 0.5,
      threshold_time_force_avoidance_for_stopped_vehicle = 10,
      enable_force_avoidance_for_stopped_vehicle = False,
      object_ignore_section_traffic_light_in_front_distance = 30,
      object_ignore_section_crosswalk_in_front_distance = 30,
      object_ignore_section_crosswalk_behind_distance = 30,
      threshold_distance_object_is_on_center = 1,
      object_check_min_road_shoulder_width = 0.5,
      object_check_shiftable_ratio = 0.6\<rparr>"










text \<open>
  A path shifter with the usual closed form of the jerk, and shift lines from x = 10 to
  x = 30.
\<close>

definition sample_shift_line_decls :: ShiftLineDecls where
  "sample_shift_line_decls =
     \<lparr>calcJerkFromLatLonDistance =
        (\<lambda>lat lon v. 32 * \<bar>lat\<bar> * (\<bar>v\<bar> / max \<bar>lon\<bar> (1 / 1000)) ^ 3),
      getRelativeLength = (\<lambda>l. end_shift_length l - start_shift_length l),
      getRelativeLongitudinal = (\<lambda>l. end_longitudinal l - start_longitudinal l)\<rparr>"

definition sample_helper :: AvoidanceHelper where
  "sample_helper = \<lparr>getAvoidanceEgoSpeed = 5, getLateralMaxJerkLimit = 1\<rparr>"

definition sample_line :: "UUID \<Rightarrow> real \<Rightarrow> real \<Rightarrow> real \<Rightarrow> AvoidLine" where
  "sample_line ident x y shift =
     \<lparr>start_pose = pose_at x y, end_pose = pose_at 30 0,
      start_shift_length = 0, end_shift_length = shift,
      start_longitudinal = 10, end_longitudinal = 30,
      line_object = sample_object ident CAR 40 (- 1.5) 1\<rparr>"

text \<open>
  The same library over a map with one hatched road marking, found at every point of a
  bound: the area between the left bound and y = 6.
\<close>

definition hatched_area :: Polygon3d where
  "hatched_area =
     \<lparr>poly_id = 31,
      poly_points = [\<lparr>px = 0, py = 4, pz = 0\<rparr>, \<lparr>px = 100, py = 4, pz = 0\<rparr>,
                     \<lparr>px = 100, py = 6, pz = 0\<rparr>, \<lparr>px = 0, py = 6, pz = 0\<rparr>]\<rparr>"

definition hatched_lib :: Lib where
  "hatched_lib =
     sample_lib\<lparr>getPolygonByPoint :=
       (\<lambda>p layer. if layer = ''hatched_road_markings'' then Some hatched_area else None)\<rparr>"

section \<open>Properties\<close>

subsection \<open>Facts about the sample scene\<close>

lemma DBL_MAX_large: "1000000 < DBL_MAX"
  by (simp add: DBL_MAX_def)

lemmas scene_defs = pose_at_def box_polygon_def level_line_def sample_lanelet_def
  sample_crosswalk_def sample_route_handler_def level_distance_def box_distance_def
  sample_lib_def sample_planner_data_def sample_path_def sample_data_def sample_object_def
  sample_object_parameter_def sample_parameters_def

lemmas body_defs = filter_object_def pre_checks_def post_checks_def check_type_and_range_def
  locate_road_shoulder_def fill_road_shoulder_distance_def update_road_to_shoulder_distance_def
  extendToRoadShoulderDistanceWithPolygon_def collect_expandable_polygons_def
  calcAvoidMargin_def check_shift_length_def classify_non_vehicle_def check_force_avoidance_def
  check_parked_def side_parked_def shiftable_distance_def isWithinCrosswalk_def
  calcShiftLength_def isShiftNecessary_def isOnRight_def isTargetObjectType_def
  isVehicleTypeObject_def fillLongitudinalAndLengthByClosestEnvelopeFootprint_def
  reject_def accept_def bindE_def attributeOr_def attribute_def Let_def min_def max_def

subsection \<open>Errors of \<open>getCurrentLanesFromPath\<close>\<close>

text \<open>
  Claim C8. \<open>getCurrentLanesFromPath\<close> raises its logic error exactly when the path has no
  point or the first point has no lane identifier. On every other path its own checks
  pass, and the result is the lanelet sequence from the lanelet of the first identifier
  (or the exception of the map lookup, when the lookup itself throws).
\<close>

theorem getCurrentLanesFromPath_raises:
  "((\<exists>msg. getCurrentLanesFromPath path planner_data = Inl (LogicError msg)) \<longleftrightarrow>
      (points path = [] \<or> lane_ids (hd (points path)) = []))
   \<and> (points path \<noteq> [] \<longrightarrow> lane_ids (hd (points path)) \<noteq> [] \<longrightarrow>
        getCurrentLanesFromPath path planner_data =
          (case getLaneletsFromId (route_handler planner_data)
                  (hd (lane_ids (hd (points path)))) of
             Inl msg \<Rightarrow> Inl (External msg)
           | Inr start_lane \<Rightarrow>
               Inr (getLaneletSequence (route_handler planner_data) start_lane
                      (backward_path_length (parameters planner_data))
                      (forward_path_length (parameters planner_data)))))"
  by (auto simp: getCurrentLanesFromPath_def split: list.splits sum.splits)

theorem getCurrentLanesFromPath_raises_witness:
  "getCurrentLanesFromPath sample_path sample_planner_data = Inr [sample_lanelet]
   \<and> (\<exists>msg. getCurrentLanesFromPath \<lparr>points = []\<rparr> sample_planner_data
              = Inl (LogicError msg))"
proof -
  have p: "points sample_path \<noteq> []" and l: "lane_ids (hd (points sample_path)) \<noteq> []"
    by (simp_all add: sample_path_def)
  from getCurrentLanesFromPath_raises [of sample_path sample_planner_data] p l
  have "getCurrentLanesFromPath sample_path sample_planner_data =
          (case getLaneletsFromId (route_handler sample_planner_data)
                  (hd (lane_ids (hd (points sample_path)))) of
             Inl msg \<Rightarrow> Inl (External msg)
           | Inr start_lane \<Rightarrow>
               Inr (getLaneletSequence (route_handler sample_planner_data) start_lane
                      (backward_path_length (parameters sample_planner_data))
                      (forward_path_length (parameters sample_planner_data))))"
    by blast
  then have a: "getCurrentLanesFromPath sample_path sample_planner_data = Inr [sample_lanelet]"
    by (simp add: sample_path_def sample_planner_data_def sample_route_handler_def)
  from getCurrentLanesFromPath_raises [of "\<lparr>points = []\<rparr>" sample_planner_data]
  have b: "\<exists>msg. getCurrentLanesFromPath \<lparr>points = []\<rparr> sample_planner_data
              = Inl (LogicError msg)"
    by simp
  from a b show ?thesis by blast
qed

subsection \<open>Combining raw shift lines\<close>

lemma isSimilar_iff:
  "isSimilar lib a b =
     (calcDistance2d lib (position (start_pose a)) (position (start_pose b)) \<le> 1.0 \<and>
      calcDistance2d lib (position (end_pose a)) (position (end_pose b)) \<le> 1.0 \<and>
      \<bar>end_shift_length a - end_shift_length b\<bar> \<le> 0.5)"
  by (auto simp: isSimilar_def)

lemma scan_base_lines_iff:
  "scan_base_lines lib a bs = (\<exists>b \<in> set bs. hasSameObjectId a b \<and> isSimilar lib a b)"
  by (induction bs) auto

lemma scan_base_lines_duplicate:
  "scan_base_lines lib a bs = duplicate_of_base lib bs a"
  unfolding scan_base_lines_iff duplicate_of_base_def hasSameObjectId_def isSimilar_iff
  by simp

lemma combine_loop_eq:
  "combine_loop lib bs added acc = acc @ filter (\<lambda>a. \<not> duplicate_of_base lib bs a) added"
  by (induction added arbitrary: acc) (simp_all add: scan_base_lines_duplicate)

text \<open>
  Claim C7. The result of \<open>combineRawShiftLinesWithUniqueCheck\<close> is the base lines, in
  their order, followed by the added lines that are not duplicates, in their order; a
  duplicate is an added line for which some base line has the same object identifier,
  start and end within 1.0 m (distances up to and including 1.0) and end shift length
  within 0.5 m. In particular the base lines are the first lines of the result.
\<close>

theorem combine_keeps_base_and_new_lines:
  "combineRawShiftLinesWithUniqueCheck lib base_lines added_lines =
     base_lines @ filter (\<lambda>a. \<not> duplicate_of_base lib base_lines a) added_lines
   \<and> take (length base_lines) (combineRawShiftLinesWithUniqueCheck lib base_lines added_lines)
       = base_lines"
  by (simp add: combineRawShiftLinesWithUniqueCheck_def combine_loop_eq)

text \<open>
  In the sample scene the base line of object 7 starts at (10, 0). Of the added lines, the
  one of object 7 that starts 1.0 m away with a shift longer by 0.5 m is a duplicate; the
  same line for object 8 is kept, and so is the line of object 7 that starts 5 m away.
\<close>

theorem combine_keeps_base_and_new_lines_witness:
  "combineRawShiftLinesWithUniqueCheck sample_lib [sample_line 7 10 0 1]
     [sample_line 7 10.6 0.8 1.5, sample_line 8 10.6 0.8 1.5, sample_line 7 13 4 1]
   = [sample_line 7 10 0 1, sample_line 8 10.6 0.8 1.5, sample_line 7 13 4 1]"
proof -
  have d1: "duplicate_of_base sample_lib [sample_line 7 10 0 1] (sample_line 7 10.6 0.8 1.5)"
    by (simp add: duplicate_of_base_def sample_line_def sample_object_def sample_lib_def
          pose_at_def)
  have d2: "\<not> duplicate_of_base sample_lib [sample_line 7 10 0 1] (sample_line 8 10.6 0.8 1.5)"
    by (simp add: duplicate_of_base_def sample_line_def sample_object_def)
  have d3: "\<not> duplicate_of_base sample_lib [sample_line 7 10 0 1] (sample_line 7 13 4 1)"
    by (simp add: duplicate_of_base_def sample_line_def sample_object_def sample_lib_def
          pose_at_def)
  from combine_keeps_base_and_new_lines [of sample_lib "[sample_line 7 10 0 1]"
      "[sample_line 7 10.6 0.8 1.5, sample_line 8 10.6 0.8 1.5, sample_line 7 13 4 1]"]
  show ?thesis
    by (simp only: filter.simps d1 d2 d3 not_True_eq_False not_False_eq_True if_True if_False
          append.simps)
qed

subsection \<open>The comfort check\<close>

text \<open>
  Claim C6. \<open>isComfortable\<close> holds exactly when, for every line of the set, the jerk that
  \<open>PathShifter::calcJerkFromLatLonDistance\<close> computes from the relative shift length of
  the line, its relative longitudinal distance and the avoidance ego speed is below the
  lateral jerk limit; so no line of an accepted set exceeds the limit.
\<close>

theorem isComfortable_iff_all_below_limit:
  "isComfortable d helper shift_lines =
     (\<forall>line \<in> set shift_lines.
        calcJerkFromLatLonDistance d (getRelativeLength d line) (getRelativeLongitudinal d line)
          (getAvoidanceEgoSpeed helper)
        < getLateralMaxJerkLimit helper)
   \<and> (isComfortable d helper shift_lines \<longrightarrow>
        (\<forall>line \<in> set shift_lines.
           calcJerkFromLatLonDistance d (getRelativeLength d line) (getRelativeLongitudinal d line)
             (getAvoidanceEgoSpeed helper)
           \<le> getLateralMaxJerkLimit helper))"
  by (auto simp: isComfortable_def list_all_iff less_imp_le)

text \<open>
  With the limit 1: at 5 m/s a shift of 1 m over 20 m has jerk 0.5 and is accepted. The
  set is rejected when a line of it shifts 4 m over the same distance (jerk 2), when the
  shift of 1 m takes only 10 m (jerk 4), when the ego speed is 10 m/s (jerk 4), and when
  the jerk is equal to the limit (a shift of 2 m).
\<close>

theorem isComfortable_iff_all_below_limit_witness:
  "isComfortable sample_shift_line_decls sample_helper [sample_line 7 10 0 1]
   \<and> calcJerkFromLatLonDistance sample_shift_line_decls
        (getRelativeLength sample_shift_line_decls (sample_line 7 10 0 1))
        (getRelativeLongitudinal sample_shift_line_decls (sample_line 7 10 0 1))
        (getAvoidanceEgoSpeed sample_helper) = 0.5
   \<and> \<not> isComfortable sample_shift_line_decls sample_helper
         [sample_line 7 10 0 1, sample_line 7 10 0 4]
   \<and> \<not> isComfortable sample_shift_line_decls sample_helper
         [(sample_line 7 10 0 1)\<lparr>end_longitudinal := 20\<rparr>]
   \<and> \<not> isComfortable sample_shift_line_decls (sample_helper\<lparr>getAvoidanceEgoSpeed := 10\<rparr>)
         [sample_line 7 10 0 1]
   \<and> \<not> isComfortable sample_shift_line_decls sample_helper [sample_line 7 10 0 2]"
proof -
  have jerk: "\<And>shift lon v.
      calcJerkFromLatLonDistance sample_shift_line_decls
        (getRelativeLength sample_shift_line_decls
           ((sample_line 7 10 0 shift)\<lparr>end_longitudinal := lon\<rparr>))
        (getRelativeLongitudinal sample_shift_line_decls
           ((sample_line 7 10 0 shift)\<lparr>end_longitudinal := lon\<rparr>))
        (getAvoidanceEgoSpeed (sample_helper\<lparr>getAvoidanceEgoSpeed := v\<rparr>))
      = 32 * \<bar>shift\<bar> * (\<bar>v\<bar> / max \<bar>lon - 10\<bar> (1 / 1000)) ^ 3"
    by (simp add: sample_shift_line_decls_def sample_line_def)
  have same_line: "\<And>shift. sample_line 7 10 0 shift
                     = (sample_line 7 10 0 shift)\<lparr>end_longitudinal := 30\<rparr>"
    by (simp add: sample_line_def)
  have same_helper: "sample_helper = sample_helper\<lparr>getAvoidanceEgoSpeed := 5\<rparr>"
    by (simp add: sample_helper_def)
  have lim: "\<And>v. getLateralMaxJerkLimit (sample_helper\<lparr>getAvoidanceEgoSpeed := v\<rparr>) = 1"
    by (simp add: sample_helper_def)
  have j1: "calcJerkFromLatLonDistance sample_shift_line_decls
        (getRelativeLength sample_shift_line_decls (sample_line 7 10 0 1))
        (getRelativeLongitudinal sample_shift_line_decls (sample_line 7 10 0 1))
        (getAvoidanceEgoSpeed sample_helper) = 0.5"
    by (subst same_line, subst (2) same_line, subst same_helper)
       (simp only: jerk, simp add: power3_eq_cube)
  have a: "isComfortable sample_shift_line_decls sample_helper [sample_line 7 10 0 1]"
    using isComfortable_iff_all_below_limit
            [of sample_shift_line_decls sample_helper "[sample_line 7 10 0 1]"]
    by (simp add: sample_shift_line_decls_def sample_line_def sample_helper_def power3_eq_cube)
  have b: "\<not> isComfortable sample_shift_line_decls sample_helper
               [sample_line 7 10 0 1, sample_line 7 10 0 4]"
    using isComfortable_iff_all_below_limit
            [of sample_shift_line_decls sample_helper
                "[sample_line 7 10 0 1, sample_line 7 10 0 4]"]
    by (simp add: sample_shift_line_decls_def sample_line_def sample_helper_def power3_eq_cube)
  have c: "\<not> isComfortable sample_shift_line_decls sample_helper
               [(sample_line 7 10 0 1)\<lparr>end_longitudinal := 20\<rparr>]"
    using isComfortable_iff_all_below_limit
            [of sample_shift_line_decls sample_helper
                "[(sample_line 7 10 0 1)\<lparr>end_longitudinal := 20\<rparr>]"]
    by (simp add: sample_shift_line_decls_def sample_line_def sample_helper_def power3_eq_cube)
  have d: "\<not> isComfortable sample_shift_line_decls (sample_helper\<lparr>getAvoidanceEgoSpeed := 10\<rparr>)
               [sample_line 7 10 0 1]"
    using isComfortable_iff_all_below_limit
            [of sample_shift_line_decls "sample_helper\<lparr>getAvoidanceEgoSpeed := 10\<rparr>"
                "[sample_line 7 10 0 1]"]
    by (simp add: sample_shift_line_decls_def sample_line_def sample_helper_def power3_eq_cube)
  have e: "\<not> isComfortable sample_shift_line_decls sample_helper [sample_line 7 10 0 2]"
    using isComfortable_iff_all_below_limit
            [of sample_shift_line_decls sample_helper "[sample_line 7 10 0 2]"]
    by (simp add: sample_shift_line_decls_def sample_line_def sample_helper_def power3_eq_cube)
  from a j1 b c d e show ?thesis by blast
qed

subsection \<open>Hysteresis of the avoidance necessity\<close>

lemma find_same_id_first:
  assumes "\<forall>x \<in> set before. object_id (object x) \<noteq> ident"
    and "object_id (object r) = ident"
  shows "find_same_id ident (before @ r # after) = Some r"
  using assms by (induction before) (simp_all add: find_same_id_def)

lemma find_same_id_none:
  assumes "\<forall>x \<in> set registered_objects. object_id (object x) \<noteq> ident"
  shows "find_same_id ident registered_objects = None"
  using assms by (simp add: find_same_id_def find_None_iff)

text \<open>
  Claim C3. Let the object's type have parameters, and let the safety margin be half the
  vehicle width plus the lateral safety buffer times the distance factor. The registered
  entry of the object is the first object of the registered list with its identifier.
  When that entry has \<open>avoid_required\<close> set, the new flag is the necessity check against
  the safety margin times \<open>hysteresis_factor_expand_rate\<close>: on the right (negative lateral
  position) the absolute overhang is below it, on the left the overhang is below it. So
  the flag stays set until the check with the expanded margin fails. When the entry has
  the flag cleared, and when no registered object has the identifier, the check is
  against the safety margin times 1.0.
\<close>

theorem fillAvoidanceNecessity_factor:
  assumes "object_parameters params (label (object obj)) = Some op"
  shows
    "(\<forall>before r after.
        registered_objects = before @ r # after
        \<and> (\<forall>x \<in> set before. object_id (object x) \<noteq> object_id (object obj))
        \<and> object_id (object r) = object_id (object obj)
        \<longrightarrow>
        fillAvoidanceNecessity obj registered_objects vw params =
          Inr (obj\<lparr>avoid_required :=
                 (let safety_margin = 0.5 * vw + safety_buffer_lateral op * distance_factor obj;
                      factor = (if avoid_required r then hysteresis_factor_expand_rate params
                                else 1.0)
                  in (lateral obj < 0 \<and> \<bar>overhang_dist obj\<bar> < safety_margin * factor)
                     \<or> (\<not> lateral obj < 0 \<and> overhang_dist obj < safety_margin * factor))\<rparr>))
     \<and> ((\<forall>x \<in> set registered_objects. object_id (object x) \<noteq> object_id (object obj))
        \<longrightarrow>
        fillAvoidanceNecessity obj registered_objects vw params =
          Inr (obj\<lparr>avoid_required :=
                 (let safety_margin = 0.5 * vw + safety_buffer_lateral op * distance_factor obj
                  in (lateral obj < 0 \<and> \<bar>overhang_dist obj\<bar> < safety_margin * 1.0)
                     \<or> (\<not> lateral obj < 0 \<and> overhang_dist obj < safety_margin * 1.0))\<rparr>))"
proof (intro conjI allI impI)
  fix before r after
  assume h: "registered_objects = before @ r # after
        \<and> (\<forall>x \<in> set before. object_id (object x) \<noteq> object_id (object obj))
        \<and> object_id (object r) = object_id (object obj)"
  then have "find_same_id (object_id (object obj)) registered_objects = Some r"
    using find_same_id_first [of before "object_id (object obj)" r after] by simp
  with assms show "fillAvoidanceNecessity obj registered_objects vw params =
          Inr (obj\<lparr>avoid_required :=
                 (let safety_margin = 0.5 * vw + safety_buffer_lateral op * distance_factor obj;
                      factor = (if avoid_required r then hysteresis_factor_expand_rate params
                                else 1.0)
                  in (lateral obj < 0 \<and> \<bar>overhang_dist obj\<bar> < safety_margin * factor)
                     \<or> (\<not> lateral obj < 0 \<and> overhang_dist obj < safety_margin * factor))\<rparr>)"
    by (simp add: fillAvoidanceNecessity_def check_necessity_def isOnRight_def Let_def)
next
  assume "\<forall>x \<in> set registered_objects. object_id (object x) \<noteq> object_id (object obj)"
  then have "find_same_id (object_id (object obj)) registered_objects = None"
    by (rule find_same_id_none)
  with assms show "fillAvoidanceNecessity obj registered_objects vw params =
          Inr (obj\<lparr>avoid_required :=
                 (let safety_margin = 0.5 * vw + safety_buffer_lateral op * distance_factor obj
                  in (lateral obj < 0 \<and> \<bar>overhang_dist obj\<bar> < safety_margin * 1.0)
                     \<or> (\<not> lateral obj < 0 \<and> overhang_dist obj < safety_margin * 1.0))\<rparr>)"
    by (simp add: fillAvoidanceNecessity_def check_necessity_def isOnRight_def Let_def)
qed

text \<open>
  A car on the left with an overhang of 1.8 m, a vehicle 2 m wide, a safety margin of
  1.5 m and an expand rate of 2; the registered list starts with another object, number 8,
  whose flag is set. The flag of car 7 stays set when its own entry has it set, and is
  cleared when its own entry has it cleared and when only object 8 is registered. Of two
  entries for car 7 the first decides. A new car with an overhang of 1.2 m gets the flag,
  and so does a car on the right whose overhang is -1.2 m.
\<close>

theorem fillAvoidanceNecessity_factor_witness:
  "object_parameters sample_parameters (label (object (sample_object 7 CAR 20 2.8 1)))
     = Some sample_object_parameter
   \<and> fillAvoidanceNecessity (sample_object 7 CAR 20 2.8 1)
        [(sample_object 8 CAR 40 2.8 1)\<lparr>avoid_required := True\<rparr>,
         (sample_object 7 CAR 20 2.8 1)\<lparr>avoid_required := True\<rparr>] 2 sample_parameters
      = Inr ((sample_object 7 CAR 20 2.8 1)\<lparr>avoid_required := True\<rparr>)
   \<and> fillAvoidanceNecessity (sample_object 7 CAR 20 2.8 1)
        [(sample_object 8 CAR 40 2.8 1)\<lparr>avoid_required := True\<rparr>,
         (sample_object 7 CAR 20 2.8 1)\<lparr>avoid_required := False\<rparr>] 2 sample_parameters
      = Inr ((sample_object 7 CAR 20 2.8 1)\<lparr>avoid_required := False\<rparr>)
   \<and> fillAvoidanceNecessity (sample_object 7 CAR 20 2.8 1)
        [(sample_object 8 CAR 40 2.8 1)\<lparr>avoid_required := True\<rparr>] 2 sample_parameters
      = Inr ((sample_object 7 CAR 20 2.8 1)\<lparr>avoid_required := False\<rparr>)
   \<and> fillAvoidanceNecessity (sample_object 7 CAR 20 2.8 1)
        [(sample_object 7 CAR 20 2.8 1)\<lparr>avoid_required := False\<rparr>,
         (sample_object 7 CAR 20 2.8 1)\<lparr>avoid_required := True\<rparr>] 2 sample_parameters
      = Inr ((sample_object 7 CAR 20 2.8 1)\<lparr>avoid_required := False\<rparr>)
   \<and> fillAvoidanceNecessity (sample_object 7 CAR 20 2.2 1)
        [(sample_object 8 CAR 40 2.8 1)\<lparr>avoid_required := True\<rparr>] 2 sample_parameters
      = Inr ((sample_object 7 CAR 20 2.2 1)\<lparr>avoid_required := True\<rparr>)
   \<and> fillAvoidanceNecessity (sample_object 7 CAR 20 (- 2.2) 1)
        [(sample_object 8 CAR 40 2.8 1)\<lparr>avoid_required := True\<rparr>] 2 sample_parameters
      = Inr ((sample_object 7 CAR 20 (- 2.2) 1)\<lparr>avoid_required := True\<rparr>)"
proof -
  let ?other = "(sample_object 8 CAR 40 2.8 1)\<lparr>avoid_required := True\<rparr>"
  have h: "\<And>y. object_parameters sample_parameters (label (object (sample_object 7 CAR 20 y 1)))
     = Some sample_object_parameter"
    by (simp add: sample_parameters_def sample_object_def)
  have set_set: "fillAvoidanceNecessity (sample_object 7 CAR 20 2.8 1)
        [?other, (sample_object 7 CAR 20 2.8 1)\<lparr>avoid_required := True\<rparr>] 2 sample_parameters
      = Inr ((sample_object 7 CAR 20 2.8 1)\<lparr>avoid_required := True\<rparr>)"
    using fillAvoidanceNecessity_factor [OF h [of "2.8"],
            where registered_objects = "[?other, (sample_object 7 CAR 20 2.8 1)\<lparr>avoid_required := True\<rparr>]"
              and vw = 2,
            THEN conjunct1, rule_format,
            where before = "[?other]"
              and r = "(sample_object 7 CAR 20 2.8 1)\<lparr>avoid_required := True\<rparr>"
              and after = "[]"]
    by (simp add: sample_object_def sample_parameters_def sample_object_parameter_def
          pose_at_def)
  have cleared_cleared: "fillAvoidanceNecessity (sample_object 7 CAR 20 2.8 1)
        [?other, (sample_object 7 CAR 20 2.8 1)\<lparr>avoid_required := False\<rparr>] 2 sample_parameters
      = Inr ((sample_object 7 CAR 20 2.8 1)\<lparr>avoid_required := False\<rparr>)"
    using fillAvoidanceNecessity_factor [OF h [of "2.8"],
            where registered_objects = "[?other, (sample_object 7 CAR 20 2.8 1)\<lparr>avoid_required := False\<rparr>]"
              and vw = 2,
            THEN conjunct1, rule_format,
            where before = "[?other]"
              and r = "(sample_object 7 CAR 20 2.8 1)\<lparr>avoid_required := False\<rparr>"
              and after = "[]"]
    by (simp add: sample_object_def sample_parameters_def sample_object_parameter_def
          pose_at_def)
  have unregistered: "fillAvoidanceNecessity (sample_object 7 CAR 20 2.8 1)
        [?other] 2 sample_parameters
      = Inr ((sample_object 7 CAR 20 2.8 1)\<lparr>avoid_required := False\<rparr>)"
    using fillAvoidanceNecessity_factor [OF h [of "2.8"],
            where registered_objects = "[?other]" and vw = 2,
            THEN conjunct2, rule_format]
    by (simp add: sample_object_def sample_parameters_def sample_object_parameter_def
          pose_at_def)
  have first_decides: "fillAvoidanceNecessity (sample_object 7 CAR 20 2.8 1)
        [(sample_object 7 CAR 20 2.8 1)\<lparr>avoid_required := False\<rparr>,
         (sample_object 7 CAR 20 2.8 1)\<lparr>avoid_required := True\<rparr>] 2 sample_parameters
      = Inr ((sample_object 7 CAR 20 2.8 1)\<lparr>avoid_required := False\<rparr>)"
    using fillAvoidanceNecessity_factor [OF h [of "2.8"],
            where registered_objects =
                "[(sample_object 7 CAR 20 2.8 1)\<lparr>avoid_required := False\<rparr>,
                  (sample_object 7 CAR 20 2.8 1)\<lparr>avoid_required := True\<rparr>]"
              and vw = 2,
            THEN conjunct1, rule_format,
            where before = "[]"
              and r = "(sample_object 7 CAR 20 2.8 1)\<lparr>avoid_required := False\<rparr>"
              and after = "[(sample_object 7 CAR 20 2.8 1)\<lparr>avoid_required := True\<rparr>]"]
    by (simp add: sample_object_def sample_parameters_def sample_object_parameter_def
          pose_at_def)
  have near_left: "fillAvoidanceNecessity (sample_object 7 CAR 20 2.2 1)
        [?other] 2 sample_parameters
      = Inr ((sample_object 7 CAR 20 2.2 1)\<lparr>avoid_required := True\<rparr>)"
    using fillAvoidanceNecessity_factor [OF h [of "2.2"],
            where registered_objects = "[?other]" and vw = 2,
            THEN conjunct2, rule_format]
    by (simp add: sample_object_def sample_parameters_def sample_object_parameter_def
          pose_at_def)
  have near_right: "fillAvoidanceNecessity (sample_object 7 CAR 20 (- 2.2) 1)
        [?other] 2 sample_parameters
      = Inr ((sample_object 7 CAR 20 (- 2.2) 1)\<lparr>avoid_required := True\<rparr>)"
    using fillAvoidanceNecessity_factor [OF h [of "- 2.2"],
            where registered_objects = "[?other]" and vw = 2,
            THEN conjunct2, rule_format]
    by (simp add: sample_object_def sample_parameters_def sample_object_parameter_def
          pose_at_def)
  from h [of "2.8"] set_set cleared_cleared unregistered first_decides near_left near_right
  show ?thesis by (simp only: simp_thms)
qed

subsection \<open>The envelope polygon across cycles\<close>




















subsection \<open>The filter and the clock\<close>

lemma accept_clock:
  "forget_outcome (accept now1 m obj) = forget_outcome (accept now2 m obj)"
  by (simp add: accept_def forget_last_seen_def)

lemma classify_non_vehicle_clock:
  "forget_outcome (classify_non_vehicle rh lib now1 m obj)
     = forget_outcome (classify_non_vehicle rh lib now2 m obj)"
  by (simp add: classify_non_vehicle_def accept_clock)

lemma check_force_avoidance_clock:
  "(check_force_avoidance lib params ego ext now1 m obj = Next obj1
      \<longleftrightarrow> check_force_avoidance lib params ego ext now2 m obj = Next obj1)
   \<and> (\<forall>oc1. check_force_avoidance lib params ego ext now1 m obj = Done oc1 \<longrightarrow>
         (\<exists>oc2. check_force_avoidance lib params ego ext now2 m obj = Done oc2
                \<and> forget_outcome oc1 = forget_outcome oc2))"
  by (auto simp: check_force_avoidance_def Let_def accept_clock)

lemma check_parked_clock:
  "map_sum id forget_outcome (check_parked rh lib params ll now1 m obj)
     = map_sum id forget_outcome (check_parked rh lib params ll now2 m obj)"
  by (simp add: check_parked_def Let_def bindE_def accept_clock split: sum.splits)

lemma post_checks_clock:
  "map_sum id forget_outcome (post_checks pd lib params ext now1 st)
     = map_sum id forget_outcome (post_checks pd lib params ext now2 st)"
proof (cases st)
  case (fields obj ll m)
  show ?thesis
  proof (cases "isVehicleTypeObject obj")
    case False
    then show ?thesis
      by (simp add: post_checks_def fields classify_non_vehicle_clock)
  next
    case True
    show ?thesis
    proof (cases "check_force_avoidance lib params (self_odometry pd) ext now1 m obj")
      case (Done oc1)
      with check_force_avoidance_clock [of lib params "self_odometry pd" ext now1 m obj _ now2]
      obtain oc2 where
        "check_force_avoidance lib params (self_odometry pd) ext now2 m obj = Done oc2"
        and "forget_outcome oc1 = forget_outcome oc2"
        by blast
      with Done True show ?thesis
        by (simp add: post_checks_def fields)
    next
      case (Next obj1)
      with check_force_avoidance_clock [of lib params "self_odometry pd" ext now1 m obj obj1 now2]
      have "check_force_avoidance lib params (self_odometry pd) ext now2 m obj = Next obj1"
        by blast
      with Next True show ?thesis
        by (simp add: post_checks_def fields check_parked_clock)
    qed
  qed
qed

lemma filter_object_clock:
  "map_sum id (\<lambda>r. (forget_outcome (fst r), snd r))
       (filter_object pd lib params path dtg ext now1 obj)
     = map_sum id (\<lambda>r. (forget_outcome (fst r), snd r))
         (filter_object pd lib params path dtg ext now2 obj)"
proof (cases "pre_checks pd lib params path dtg obj")
  case (Inl e)
  then show ?thesis by (simp add: filter_object_def bindE_def)
next
  case (Inr r)
  show ?thesis
  proof (cases "fst r")
    case (Done oc)
    with Inr show ?thesis by (simp add: filter_object_def bindE_def)
  next
    case (Next st)
    from post_checks_clock [of pd lib params ext now1 st now2] Inr Next
    show ?thesis
      by (auto simp: filter_object_def bindE_def split: sum.splits)
  qed
qed

lemma without_clock_path:
  assumes "without_clock (v1, d1, g1) = without_clock (v2, d2, g2)"
  shows "reference_path_rough d1 = reference_path_rough d2"
proof -
  from assms have "d1\<lparr>target_objects := map forget_last_seen (target_objects d1)\<rparr>
           = d2\<lparr>target_objects := map forget_last_seen (target_objects d2)\<rparr>"
    by (simp add: without_clock_def)
  then have
    "reference_path_rough (d1\<lparr>target_objects := map forget_last_seen (target_objects d1)\<rparr>)
       = reference_path_rough (d2\<lparr>target_objects := map forget_last_seen (target_objects d2)\<rparr>)"
    by (rule arg_cong)
  then show ?thesis by simp
qed

lemma without_clock_step:
  assumes "without_clock (v1, d1, g1) = without_clock (v2, d2, g2)"
    and "forget_outcome oc1 = forget_outcome oc2"
  shows "without_clock (v1 @ [object_of oc1], apply_outcome oc1 d1, g1\<lparr>bounds := bounds g1 @ b\<rparr>)
       = without_clock (v2 @ [object_of oc2], apply_outcome oc2 d2, g2\<lparr>bounds := bounds g2 @ b\<rparr>)"
proof -
  from assms(1) have v: "map forget_last_seen v1 = map forget_last_seen v2" and g: "g1 = g2"
    and d: "d1\<lparr>target_objects := map forget_last_seen (target_objects d1)\<rparr>
           = d2\<lparr>target_objects := map forget_last_seen (target_objects d2)\<rparr>"
    by (simp_all add: without_clock_def)
  from d have t: "map forget_last_seen (target_objects d1) = map forget_last_seen (target_objects d2)"
    by (drule_tac f = target_objects in arg_cong) simp
  from d have o: "other_objects d1 = other_objects d2"
    by (drule_tac f = other_objects in arg_cong) simp
  from d have c: "current_lanelets d1 = current_lanelets d2"
    by (drule_tac f = current_lanelets in arg_cong) simp
  from d have p: "reference_path_rough d1 = reference_path_rough d2"
    by (drule_tac f = reference_path_rough in arg_cong) simp
  from d have m: "AvoidancePlanningData.more d1 = AvoidancePlanningData.more d2"
    by (drule_tac f = AvoidancePlanningData.more in arg_cong) simp
  show ?thesis
    using assms(2) v g t o c p m
    by (cases oc1; cases oc2) (simp_all add: without_clock_def AvoidancePlanningData.equality)
qed

lemma filter_loop_clock:
  "without_clock acc1 = without_clock acc2 \<Longrightarrow>
     map_sum id without_clock (filter_loop pd lib params dtg ext now1 objs acc1)
       = map_sum id without_clock (filter_loop pd lib params dtg ext now2 objs acc2)"
proof (induction objs arbitrary: acc1 acc2)
  case Nil
  then show ?case by simp
next
  case (Cons obj rest)
  obtain v1 d1 g1 where a1: "acc1 = (v1, d1, g1)" by (cases acc1)
  obtain v2 d2 g2 where a2: "acc2 = (v2, d2, g2)" by (cases acc2)
  from Cons.prems a1 a2 have eq: "without_clock (v1, d1, g1) = without_clock (v2, d2, g2)"
    by simp
  then have path: "reference_path_rough d1 = reference_path_rough d2"
    by (rule without_clock_path)
  let ?r1 = "filter_object pd lib params (reference_path_rough d1) dtg ext now1 obj"
  let ?r2 = "filter_object pd lib params (reference_path_rough d1) dtg ext now2 obj"
  have rel: "map_sum id (\<lambda>r. (forget_outcome (fst r), snd r)) ?r1
           = map_sum id (\<lambda>r. (forget_outcome (fst r), snd r)) ?r2"
    by (rule filter_object_clock)
  show ?case
  proof (cases ?r1)
    case (Inl e)
    with rel have "?r2 = Inl e" by (cases ?r2) simp_all
    with Inl show ?thesis by (simp add: a1 a2 path [symmetric])
  next
    case (Inr r1)
    with rel obtain r2 where r2: "?r2 = Inr r2"
      and same: "forget_outcome (fst r1) = forget_outcome (fst r2)" "snd r1 = snd r2"
      by (cases ?r2) simp_all
    from without_clock_step [OF eq same(1), of "snd r1"] same(2)
    have "without_clock (v1 @ [object_of (fst r1)], apply_outcome (fst r1) d1,
              g1\<lparr>bounds := bounds g1 @ snd r1\<rparr>)
        = without_clock (v2 @ [object_of (fst r2)], apply_outcome (fst r2) d2,
              g2\<lparr>bounds := bounds g2 @ snd r2\<rparr>)"
      by simp
    from Cons.IH [OF this] Inr r2 show ?thesis
      by (simp add: a1 a2 path [symmetric])
  qed
qed

text \<open>
  Claim C9. Two runs of \<open>filterTargetObjects\<close> on the same objects, planning data, debug
  data, planner data, library answers and parameters differ at most in the clock reading.
  Whatever the two readings are, both runs return or neither does, both throw the same
  exception or neither throws, and the results agree in everything but \<open>last_seen\<close> of the
  accepted objects: the same objects are in \<open>target_objects\<close>, the same objects with the
  same reasons are in \<open>other_objects\<close>, in the same order.
\<close>

theorem filterTargetObjects_clock:
  "map_option (map_sum id without_clock)
       (filterTargetObjects objects data debug planner_data lib params now1)
     = map_option (map_sum id without_clock)
         (filterTargetObjects objects data debug planner_data lib params now2)"
  by (simp add: filterTargetObjects_def Let_def filter_loop_clock split: option.splits)

lemma sample_run:
  "filterTargetObjects [sample_object 7 PEDESTRIAN 20 (- 1.5) 1] sample_data \<lparr>bounds = []\<rparr>
       sample_planner_data sample_lib sample_parameters now
     = Some (Inr ([(sample_object 7 PEDESTRIAN 20 (- 1.5) 1)
                     \<lparr>longitudinal := 19, length_obj := 2, to_road_shoulder_distance := 4.5,
                       last_seen := now, avoid_margin := Some 2.5\<rparr>],
                  sample_data\<lparr>target_objects :=
                    [(sample_object 7 PEDESTRIAN 20 (- 1.5) 1)
                       \<lparr>longitudinal := 19, length_obj := 2, to_road_shoulder_distance := 4.5,
                         last_seen := now, avoid_margin := Some 2.5\<rparr>]\<rparr>,
                  \<lparr>bounds = [level_line 11 4]\<rparr>))"
proof -
  let ?obj = "sample_object 7 PEDESTRIAN 20 (- 1.5) 1"
  have ext: "extend_lanelets_loop (route_handler sample_planner_data) sample_lib
               (self_odometry sample_planner_data)
               (forward_path_length (parameters sample_planner_data)) [sample_lanelet]
             = Some [sample_lanelet]"
    by (subst extend_lanelets_loop.simps)
       (simp add: sample_lib_def sample_route_handler_def sample_planner_data_def)
  have goal_dist:
    "\<not> isInGoalRouteSection (route_handler sample_planner_data)
         (last (current_lanelets sample_data))"
    by (simp add: sample_route_handler_def sample_planner_data_def)
  have cur: "current_lanelets sample_data = [sample_lanelet]"
    by (simp add: sample_data_def)
  have one: "filter_object sample_planner_data sample_lib sample_parameters
               sample_path DBL_MAX [sample_lanelet] now ?obj
             = Inr (Target (?obj\<lparr>longitudinal := 19, length_obj := 2,
                              to_road_shoulder_distance := 4.5, last_seen := now,
                              avoid_margin := Some 2.5\<rparr>), [level_line 11 4])"
    using DBL_MAX_large by (simp add: body_defs scene_defs)
  have loop: "filter_loop sample_planner_data sample_lib sample_parameters DBL_MAX
                [sample_lanelet] now [?obj] ([], sample_data, \<lparr>bounds = []\<rparr>)
              = Inr ([?obj\<lparr>longitudinal := 19, length_obj := 2,
                            to_road_shoulder_distance := 4.5, last_seen := now,
                            avoid_margin := Some 2.5\<rparr>],
                     sample_data\<lparr>target_objects :=
                       [?obj\<lparr>longitudinal := 19, length_obj := 2,
                             to_road_shoulder_distance := 4.5, last_seen := now,
                             avoid_margin := Some 2.5\<rparr>]\<rparr>,
                     \<lparr>bounds = [level_line 11 4]\<rparr>)"
    using one by (simp add: sample_data_def)
  show ?thesis
    unfolding filterTargetObjects_def Let_def
    using goal_dist by (simp only: cur ext loop list.simps if_False option.case)
qed

text \<open>
  The pedestrian of the sample scene is accepted at the clock readings 42 and 99; the two
  results differ in \<open>last_seen\<close> and agree once it is removed.
\<close>

theorem filterTargetObjects_clock_witness:
  "filterTargetObjects [sample_object 7 PEDESTRIAN 20 (- 1.5) 1] sample_data \<lparr>bounds = []\<rparr>
       sample_planner_data sample_lib sample_parameters 42
     \<noteq> filterTargetObjects [sample_object 7 PEDESTRIAN 20 (- 1.5) 1] sample_data
         \<lparr>bounds = []\<rparr> sample_planner_data sample_lib sample_parameters 99
   \<and> map_option (map_sum id without_clock)
        (filterTargetObjects [sample_object 7 PEDESTRIAN 20 (- 1.5) 1] sample_data
           \<lparr>bounds = []\<rparr> sample_planner_data sample_lib sample_parameters 99)
      = Some (Inr ([(sample_object 7 PEDESTRIAN 20 (- 1.5) 1)
                     \<lparr>longitudinal := 19, length_obj := 2, to_road_shoulder_distance := 4.5,
                       last_seen := 0, avoid_margin := Some 2.5\<rparr>],
                  sample_data\<lparr>target_objects :=
                    [(sample_object 7 PEDESTRIAN 20 (- 1.5) 1)
                       \<lparr>longitudinal := 19, length_obj := 2, to_road_shoulder_distance := 4.5,
                         last_seen := 0, avoid_margin := Some 2.5\<rparr>]\<rparr>,
                  \<lparr>bounds = [level_line 11 4]\<rparr>))"
proof -
  have differ: "filterTargetObjects [sample_object 7 PEDESTRIAN 20 (- 1.5) 1] sample_data
       \<lparr>bounds = []\<rparr> sample_planner_data sample_lib sample_parameters 42
     \<noteq> filterTargetObjects [sample_object 7 PEDESTRIAN 20 (- 1.5) 1] sample_data
         \<lparr>bounds = []\<rparr> sample_planner_data sample_lib sample_parameters 99"
    unfolding sample_run by (simp add: sample_object_def)
  from filterTargetObjects_clock [of "[sample_object 7 PEDESTRIAN 20 (- 1.5) 1]" sample_data
      "\<lparr>bounds = []\<rparr>" sample_planner_data sample_lib sample_parameters 99 42]
  have "map_option (map_sum id without_clock)
        (filterTargetObjects [sample_object 7 PEDESTRIAN 20 (- 1.5) 1] sample_data
           \<lparr>bounds = []\<rparr> sample_planner_data sample_lib sample_parameters 99)
      = map_option (map_sum id without_clock)
         (Some (Inr ([(sample_object 7 PEDESTRIAN 20 (- 1.5) 1)
                     \<lparr>longitudinal := 19, length_obj := 2, to_road_shoulder_distance := 4.5,
                       last_seen := 42, avoid_margin := Some 2.5\<rparr>],
                  sample_data\<lparr>target_objects :=
                    [(sample_object 7 PEDESTRIAN 20 (- 1.5) 1)
                       \<lparr>longitudinal := 19, length_obj := 2, to_road_shoulder_distance := 4.5,
                         last_seen := 42, avoid_margin := Some 2.5\<rparr>]\<rparr>,
                  \<lparr>bounds = [level_line 11 4]\<rparr>)))"
    by (simp only: sample_run [of 42])
  then have "map_option (map_sum id without_clock)
        (filterTargetObjects [sample_object 7 PEDESTRIAN 20 (- 1.5) 1] sample_data
           \<lparr>bounds = []\<rparr> sample_planner_data sample_lib sample_parameters 99)
      = Some (Inr ([(sample_object 7 PEDESTRIAN 20 (- 1.5) 1)
                     \<lparr>longitudinal := 19, length_obj := 2, to_road_shoulder_distance := 4.5,
                       last_seen := 0, avoid_margin := Some 2.5\<rparr>],
                  sample_data\<lparr>target_objects :=
                    [(sample_object 7 PEDESTRIAN 20 (- 1.5) 1)
                       \<lparr>longitudinal := 19, length_obj := 2, to_road_shoulder_distance := 4.5,
                         last_seen := 0, avoid_margin := Some 2.5\<rparr>]\<rparr>,
                  \<lparr>bounds = [level_line 11 4]\<rparr>))"
    by (simp add: without_clock_def forget_last_seen_def sample_object_def)
  with differ show ?thesis by blast
qed

subsection \<open>What the parts of the loop body decide\<close>

lemma check_type_and_range_Done:
  "check_type_and_range lib path ego dtg params op obj = Done oc \<Longrightarrow> \<exists>obj'. oc = Other obj'"
  by (auto simp: check_type_and_range_def reject_def Let_def split: if_splits)

lemma check_type_and_range_Next:
  "check_type_and_range lib path ego dtg params op obj = Next obj1 \<Longrightarrow>
     obj1 = fillLongitudinalAndLengthByClosestEnvelopeFootprint lib path ego obj"
  by (auto simp: check_type_and_range_def Let_def split: if_splits)

lemma locate_road_shoulder_Done:
  "locate_road_shoulder rh lib params pose obj = Inr (Done oc) \<Longrightarrow> oc = Dropped obj"
  by (auto simp: locate_road_shoulder_def bindE_def split: option.splits if_splits sum.splits)

lemma check_shift_length_Done:
  "check_shift_length params m obj = Done oc \<Longrightarrow> \<exists>obj'. oc = Other obj'"
  by (auto simp: check_shift_length_def reject_def Let_def split: option.splits if_splits)

lemma check_shift_length_Next:
  "check_shift_length params m obj = Next obj1 \<Longrightarrow> obj1 = obj"
  by (auto simp: check_shift_length_def Let_def split: option.splits if_splits)

lemma pre_checks_Done:
  assumes "pre_checks pd lib params path dtg obj = Inr (Done oc, pushed)"
  shows "(\<exists>obj'. oc = Other obj') \<or> (\<exists>obj'. oc = Dropped obj')"
  using assms
  by (auto simp: pre_checks_def Let_def bindE_def
        split: if_splits option.splits step.splits sum.splits prod.splits
        dest: check_type_and_range_Done locate_road_shoulder_Done check_shift_length_Done)

lemma pre_checks_Next:
  assumes "pre_checks pd lib params path dtg obj = Inr (Next (obj3, ll, m), pushed)"
  shows "\<exists>op. object_parameters params (label (object obj)) = Some op
              \<and> m = calcAvoidMargin op params (vehicle_width (parameters pd)) obj3"
  using assms
  by (auto simp: pre_checks_def Let_def bindE_def
        split: if_splits option.splits step.splits sum.splits prod.splits
        dest: check_shift_length_Next)

lemma side_parked_fields:
  "side_parked rh lib params left ll cp obj = Inr r \<Longrightarrow>
     \<exists>ratio. fst r = obj\<lparr>shiftable_ratio := ratio\<rparr>"
  by (auto simp: side_parked_def bindE_def Let_def split: sum.splits)

lemma check_force_avoidance_Done:
  "check_force_avoidance lib params ego ext now m obj = Done oc \<Longrightarrow>
     \<exists>d. oc = accept now m (obj\<lparr>to_stop_factor_distance := d\<rparr>)"
  by (auto simp: check_force_avoidance_def Let_def split: if_splits)

lemma check_force_avoidance_Next:
  "check_force_avoidance lib params ego ext now m obj = Next obj1 \<Longrightarrow>
     obj1 = obj \<or> (\<exists>d. obj1 = obj\<lparr>to_stop_factor_distance := d\<rparr>)"
  by (auto simp: check_force_avoidance_def Let_def split: if_splits)

lemma check_parked_Target:
  assumes "check_parked rh lib params ll now m obj = Inr (Target obj')"
  shows "avoid_margin obj' = m
         \<and> to_road_shoulder_distance obj' = to_road_shoulder_distance obj
         \<and> distance_factor obj' = distance_factor obj"
proof -
  have side: "\<And>left cp x r. side_parked rh lib params left ll cp x = Inr r \<Longrightarrow>
      to_road_shoulder_distance (fst r) = to_road_shoulder_distance x
      \<and> distance_factor (fst r) = distance_factor x"
    by (drule side_parked_fields) auto
  from assms show ?thesis
    by (auto simp: check_parked_def Let_def bindE_def accept_def reject_def
          split: if_splits sum.splits dest!: side)
qed

lemma post_checks_Target:
  assumes "post_checks pd lib params ext now (obj, ll, m) = Inr (Target obj')"
  shows "avoid_margin obj' = m
         \<and> to_road_shoulder_distance obj' = to_road_shoulder_distance obj
         \<and> distance_factor obj' = distance_factor obj"
proof (cases "isVehicleTypeObject obj")
  case False
  with assms show ?thesis
    by (auto simp: post_checks_def classify_non_vehicle_def accept_def reject_def
          split: if_splits)
next
  case True
  show ?thesis
  proof (cases "check_force_avoidance lib params (self_odometry pd) ext now m obj")
    case (Done oc)
    from check_force_avoidance_Done [OF Done] obtain d
      where "oc = accept now m (obj\<lparr>to_stop_factor_distance := d\<rparr>)" by blast
    with assms True Done show ?thesis
      by (auto simp: post_checks_def accept_def)
  next
    case (Next obj1)
    with assms True
    have "check_parked (route_handler pd) lib params ll now m obj1 = Inr (Target obj')"
      by (simp add: post_checks_def)
    from check_parked_Target [OF this] check_force_avoidance_Next [OF Next]
    show ?thesis by auto
  qed
qed

lemma calcAvoidMargin_spec:
  "calcAvoidMargin op params vw obj =
     avoid_margin_spec (safety_buffer_lateral op) (distance_factor obj)
       (avoid_margin_lateral op) vw (soft_road_shoulder_margin params)
       (hard_road_shoulder_margin params) (to_road_shoulder_distance obj)"
  by (simp add: calcAvoidMargin_def avoid_margin_spec_def)

lemma filter_object_Target:
  assumes "filter_object pd lib params path dtg ext now obj = Inr (Target obj', pushed)"
  shows "\<exists>obj3 ll m. pre_checks pd lib params path dtg obj = Inr (Next (obj3, ll, m), pushed)
           \<and> post_checks pd lib params ext now (obj3, ll, m) = Inr (Target obj')"
proof (cases "pre_checks pd lib params path dtg obj")
  case (Inl e)
  with assms show ?thesis by (simp add: filter_object_def bindE_def)
next
  case (Inr r)
  obtain s p where r: "r = (s, p)" by (cases r)
  show ?thesis
  proof (cases s)
    case (Done oc)
    with assms Inr r have "oc = Target obj'" and "p = pushed"
      by (simp_all add: filter_object_def bindE_def)
    with pre_checks_Done [of pd lib params path dtg obj oc p] Inr r Done show ?thesis
      by auto
  next
    case (Next st)
    obtain obj3 ll m where st: "st = (obj3, ll, m)" by (cases st)
    from assms Inr r Next st show ?thesis
      by (auto simp: filter_object_def bindE_def split: sum.splits)
  qed
qed

subsection \<open>The avoid margin\<close>

text \<open>
  Claim C1. The margin computed in the loop body is the one the specification describes:
  none when the hard limit is below the minimal margin, the minimal margin when the soft
  limit is below it, and otherwise the smaller of the soft limit and the maximal margin,
  with the four quantities as specified. Every object that \<open>filterTargetObjects\<close> accepts
  carries this margin, computed from its own distance to the road shoulder and distance
  factor.
\<close>

theorem avoid_margin_as_specified:
  "calcAvoidMargin op params (vehicle_width (parameters pd)) obj =
     avoid_margin_spec (safety_buffer_lateral op) (distance_factor obj)
       (avoid_margin_lateral op) (vehicle_width (parameters pd))
       (soft_road_shoulder_margin params) (hard_road_shoulder_margin params)
       (to_road_shoulder_distance obj)
   \<and> (filter_object pd lib params path dtg ext now obj = Inr (Target obj', pushed) \<longrightarrow>
        object_parameters params (label (object obj)) = Some op \<longrightarrow>
        avoid_margin obj' =
          avoid_margin_spec (safety_buffer_lateral op) (distance_factor obj')
            (avoid_margin_lateral op) (vehicle_width (parameters pd))
            (soft_road_shoulder_margin params) (hard_road_shoulder_margin params)
            (to_road_shoulder_distance obj'))"
proof (intro conjI impI)
  show "calcAvoidMargin op params (vehicle_width (parameters pd)) obj =
     avoid_margin_spec (safety_buffer_lateral op) (distance_factor obj)
       (avoid_margin_lateral op) (vehicle_width (parameters pd))
       (soft_road_shoulder_margin params) (hard_road_shoulder_margin params)
       (to_road_shoulder_distance obj)"
    by (rule calcAvoidMargin_spec)
next
  assume run: "filter_object pd lib params path dtg ext now obj = Inr (Target obj', pushed)"
    and op: "object_parameters params (label (object obj)) = Some op"
  from filter_object_Target [OF run] obtain obj3 ll m
    where pre: "pre_checks pd lib params path dtg obj = Inr (Next (obj3, ll, m), pushed)"
      and post: "post_checks pd lib params ext now (obj3, ll, m) = Inr (Target obj')"
    by blast
  from pre_checks_Next [OF pre] op
  have m: "m = calcAvoidMargin op params (vehicle_width (parameters pd)) obj3"
    by auto
  from post_checks_Target [OF post]
  have "avoid_margin obj' = m"
    and "to_road_shoulder_distance obj' = to_road_shoulder_distance obj3"
    and "distance_factor obj' = distance_factor obj3"
    by simp_all
  with m show "avoid_margin obj' =
          avoid_margin_spec (safety_buffer_lateral op) (distance_factor obj')
            (avoid_margin_lateral op) (vehicle_width (parameters pd))
            (soft_road_shoulder_margin params) (hard_road_shoulder_margin params)
            (to_road_shoulder_distance obj')"
    by (simp add: calcAvoidMargin_spec)
qed

text \<open>
  A pedestrian 1 m wide, 1.5 m right of the centerline and 20 m ahead: the envelope is
  4.5 m from the left road bound, the limits are 2.7 m (soft) and 3.2 m (hard), the
  margins 1.5 m (minimal) and 2.5 m (maximal), so the margin is 2.5 m.
\<close>

theorem avoid_margin_as_specified_witness:
  "filter_object sample_planner_data sample_lib sample_parameters sample_path DBL_MAX
       [sample_lanelet] 42 (sample_object 7 PEDESTRIAN 20 (- 1.5) 1)
     = Inr (Target ((sample_object 7 PEDESTRIAN 20 (- 1.5) 1)
              \<lparr>longitudinal := 19, length_obj := 2, to_road_shoulder_distance := 4.5,
                last_seen := 42, avoid_margin := Some 2.5\<rparr>), [level_line 11 4])
   \<and> avoid_margin_spec 0.5 1 1 2 0.8 0.3 4.5 = Some 2.5
   \<and> object_parameters sample_parameters
        (label (object (sample_object 7 PEDESTRIAN 20 (- 1.5) 1)))
      = Some sample_object_parameter"
proof -
  let ?obj = "sample_object 7 PEDESTRIAN 20 (- 1.5) 1"
  let ?obj' = "?obj\<lparr>longitudinal := 19, length_obj := 2, to_road_shoulder_distance := 4.5,
                last_seen := 42, avoid_margin := Some 2.5\<rparr>"
  have run: "filter_object sample_planner_data sample_lib sample_parameters sample_path DBL_MAX
       [sample_lanelet] 42 ?obj = Inr (Target ?obj', [level_line 11 4])"
    using DBL_MAX_large by (simp add: body_defs scene_defs)
  have op: "object_parameters sample_parameters (label (object ?obj)) = Some sample_object_parameter"
    by (simp add: sample_parameters_def sample_object_def)
  from avoid_margin_as_specified [of sample_object_parameter sample_parameters
      sample_planner_data ?obj sample_lib sample_path DBL_MAX "[sample_lanelet]" 42 ?obj'
      "[level_line 11 4]"] run op
  have "avoid_margin ?obj' =
          avoid_margin_spec (safety_buffer_lateral sample_object_parameter)
            (distance_factor ?obj') (avoid_margin_lateral sample_object_parameter)
            (vehicle_width (parameters sample_planner_data))
            (soft_road_shoulder_margin sample_parameters)
            (hard_road_shoulder_margin sample_parameters) (to_road_shoulder_distance ?obj')"
    by blast
  then have "avoid_margin_spec 0.5 1 1 2 0.8 0.3 4.5 = Some 2.5"
    by (simp add: sample_object_parameter_def sample_planner_data_def sample_parameters_def
          sample_object_def)
  with run op show ?thesis by blast
qed

subsection \<open>Pedestrians and bicycles at a crosswalk\<close>

lemma scan_crosswalks_iff:
  "scan_crosswalks lib p conflicts =
     (\<exists>crosswalk \<in> set conflicts.
        distance_point_polygon lib p (correct_polygon lib (polygon2d crosswalk)) < 2.0)"
  by (induction conflicts) auto

text \<open>
  Claim C5. Take a pass of the loop in which the object gets as far as the test of its
  type, with the margin \<open>m\<close> (derived or not) and the pushed bounds \<open>pushed\<close>, and is not a
  vehicle. If its position is less than 2.0 m from the polygon of a crosswalk that
  conflicts with its lanelet, the pass appends it to \<open>other_objects\<close> with the reason
  CrosswalkUser and leaves \<open>target_objects\<close> as it is; otherwise the pass appends it to
  \<open>target_objects\<close> with \<open>m\<close> as its margin, whatever \<open>m\<close> is.
\<close>

theorem non_vehicle_crosswalk_rule:
  assumes "pre_checks pd lib params (reference_path_rough data) dtg obj
             = Inr (Next (obj1, ll, m), pushed)"
    and "\<not> isVehicleTypeObject obj1"
  shows "(isWithinCrosswalk obj1 (route_handler pd) lib \<longleftrightarrow>
            (\<exists>crosswalk \<in> set (conflictingInGraph (route_handler pd) (overhang_lanelet obj1) 1).
               distance_point_polygon lib
                 (px (position (initial_pose (object obj1))),
                  py (position (initial_pose (object obj1))))
                 (correct_polygon lib (polygon2d crosswalk)) < 2.0))
         \<and> filter_loop pd lib params dtg ext now (obj # rest) (visited, data, debug) =
             (if isWithinCrosswalk obj1 (route_handler pd) lib then
                filter_loop pd lib params dtg ext now rest
                  (visited @ [obj1\<lparr>reason := Literal ''CrosswalkUser''\<rparr>],
                   data\<lparr>other_objects :=
                          other_objects data @ [obj1\<lparr>reason := Literal ''CrosswalkUser''\<rparr>]\<rparr>,
                   debug\<lparr>bounds := bounds debug @ pushed\<rparr>)
              else
                filter_loop pd lib params dtg ext now rest
                  (visited @ [obj1\<lparr>last_seen := now, avoid_margin := m\<rparr>],
                   data\<lparr>target_objects :=
                          target_objects data @ [obj1\<lparr>last_seen := now, avoid_margin := m\<rparr>]\<rparr>,
                   debug\<lparr>bounds := bounds debug @ pushed\<rparr>))"
  using assms
  by (simp add: isWithinCrosswalk_def scan_crosswalks_iff Let_def filter_object_def
        post_checks_def classify_non_vehicle_def bindE_def reject_def accept_def)

lemma sample_pre_checks:
  "x = 20 \<or> x = 29 \<Longrightarrow>
   pre_checks sample_planner_data sample_lib sample_parameters
       (reference_path_rough sample_data) DBL_MAX (sample_object 7 PEDESTRIAN x (- 1.5) 1)
     = Inr (Next ((sample_object 7 PEDESTRIAN x (- 1.5) 1)
                    \<lparr>longitudinal := x - 1, length_obj := 2, to_road_shoulder_distance := 4.5\<rparr>,
                  sample_lanelet, Some 2.5), [level_line 11 4])"
  using DBL_MAX_large by (auto simp: body_defs scene_defs)

text \<open>
  Two pedestrians 1.5 m right of the centerline: the one 20 m ahead is 10 m from the
  crosswalk and is accepted; the one 29 m ahead is 1 m from it and is rejected.
\<close>

theorem non_vehicle_crosswalk_rule_witness:
  "filter_loop sample_planner_data sample_lib sample_parameters DBL_MAX [sample_lanelet] 42
       [sample_object 7 PEDESTRIAN 20 (- 1.5) 1] ([], sample_data, \<lparr>bounds = []\<rparr>)
     = Inr ([(sample_object 7 PEDESTRIAN 20 (- 1.5) 1)
               \<lparr>longitudinal := 19, length_obj := 2, to_road_shoulder_distance := 4.5,
                 last_seen := 42, avoid_margin := Some 2.5\<rparr>],
            sample_data\<lparr>target_objects :=
              [(sample_object 7 PEDESTRIAN 20 (- 1.5) 1)
                 \<lparr>longitudinal := 19, length_obj := 2, to_road_shoulder_distance := 4.5,
                   last_seen := 42, avoid_margin := Some 2.5\<rparr>]\<rparr>,
            \<lparr>bounds = [level_line 11 4]\<rparr>)
   \<and> filter_loop sample_planner_data sample_lib sample_parameters DBL_MAX [sample_lanelet] 42
       [sample_object 7 PEDESTRIAN 29 (- 1.5) 1] ([], sample_data, \<lparr>bounds = []\<rparr>)
     = Inr ([(sample_object 7 PEDESTRIAN 29 (- 1.5) 1)
               \<lparr>longitudinal := 28, length_obj := 2, to_road_shoulder_distance := 4.5,
                 reason := Literal ''CrosswalkUser''\<rparr>],
            sample_data\<lparr>other_objects :=
              [(sample_object 7 PEDESTRIAN 29 (- 1.5) 1)
                 \<lparr>longitudinal := 28, length_obj := 2, to_road_shoulder_distance := 4.5,
                   reason := Literal ''CrosswalkUser''\<rparr>]\<rparr>,
            \<lparr>bounds = [level_line 11 4]\<rparr>)"
proof -
  let ?far = "(sample_object 7 PEDESTRIAN 20 (- 1.5) 1)
                \<lparr>longitudinal := 20 - 1, length_obj := 2, to_road_shoulder_distance := 4.5\<rparr>"
  let ?near = "(sample_object 7 PEDESTRIAN 29 (- 1.5) 1)
                \<lparr>longitudinal := 29 - 1, length_obj := 2, to_road_shoulder_distance := 4.5\<rparr>"
  have nv: "\<not> isVehicleTypeObject ?far" "\<not> isVehicleTypeObject ?near"
    by (simp_all add: isVehicleTypeObject_def sample_object_def)
  have far: "\<not> isWithinCrosswalk ?far (route_handler sample_planner_data) sample_lib"
    by (simp add: isWithinCrosswalk_def scene_defs Let_def)
  have near: "isWithinCrosswalk ?near (route_handler sample_planner_data) sample_lib"
    by (simp add: isWithinCrosswalk_def scene_defs Let_def)
  have pre_far: "pre_checks sample_planner_data sample_lib sample_parameters
       (reference_path_rough sample_data) DBL_MAX (sample_object 7 PEDESTRIAN 20 (- 1.5) 1)
     = Inr (Next (?far, sample_lanelet, Some 2.5), [level_line 11 4])"
    by (rule sample_pre_checks) simp
  have pre_near: "pre_checks sample_planner_data sample_lib sample_parameters
       (reference_path_rough sample_data) DBL_MAX (sample_object 7 PEDESTRIAN 29 (- 1.5) 1)
     = Inr (Next (?near, sample_lanelet, Some 2.5), [level_line 11 4])"
    by (rule sample_pre_checks) simp
  from non_vehicle_crosswalk_rule [where ext = "[sample_lanelet]" and now = 42 and rest = "[]"
      and visited = "[]" and debug = "\<lparr>bounds = []\<rparr>", OF pre_far nv(1)] far
  have a: "filter_loop sample_planner_data sample_lib sample_parameters DBL_MAX [sample_lanelet]
       42 [sample_object 7 PEDESTRIAN 20 (- 1.5) 1] ([], sample_data, \<lparr>bounds = []\<rparr>)
     = Inr ([?far\<lparr>last_seen := 42, avoid_margin := Some 2.5\<rparr>],
            sample_data\<lparr>target_objects :=
              target_objects sample_data @ [?far\<lparr>last_seen := 42, avoid_margin := Some 2.5\<rparr>]\<rparr>,
            \<lparr>bounds = [level_line 11 4]\<rparr>)"
    by simp
  from non_vehicle_crosswalk_rule [where ext = "[sample_lanelet]" and now = 42 and rest = "[]"
      and visited = "[]" and debug = "\<lparr>bounds = []\<rparr>", OF pre_near nv(2)] near
  have b: "filter_loop sample_planner_data sample_lib sample_parameters DBL_MAX [sample_lanelet]
       42 [sample_object 7 PEDESTRIAN 29 (- 1.5) 1] ([], sample_data, \<lparr>bounds = []\<rparr>)
     = Inr ([?near\<lparr>reason := Literal ''CrosswalkUser''\<rparr>],
            sample_data\<lparr>other_objects :=
              other_objects sample_data @ [?near\<lparr>reason := Literal ''CrosswalkUser''\<rparr>]\<rparr>,
            \<lparr>bounds = [level_line 11 4]\<rparr>)"
    by simp
  from a b show ?thesis
    by (simp add: sample_data_def)
qed

subsection \<open>Objects without a lanelet on the route\<close>

text \<open>
  Claim C10. Take a pass of the loop in which the object has parameters, passes the checks
  of type, motion and range, and the route handler finds no lanelet of the route closest
  to the path pose next to the object. The pass then changes neither \<open>target_objects\<close> nor
  \<open>other_objects\<close> nor the debug bounds, and the reason of the object stays what it was:
  the object is in neither partition.
\<close>

theorem no_closest_lanelet_drops_object:
  assumes "findNearestIndex lib (points (reference_path_rough data))
             (position (initial_pose (object obj))) < length (points (reference_path_rough data))"
    and "object_parameters params (label (object obj)) = Some op"
    and "check_type_and_range lib (reference_path_rough data) (position (self_odometry pd)) dtg
           params op obj = Next obj1"
    and "getClosestLaneletWithinRoute (route_handler pd)
           (point_pose (points (reference_path_rough data) !
              findNearestIndex lib (points (reference_path_rough data))
                (position (initial_pose (object obj))))) = None"
  shows "filter_loop pd lib params dtg ext now (obj # rest) (visited, data, debug) =
           filter_loop pd lib params dtg ext now rest (visited @ [obj1], data, debug)
         \<and> reason obj1 = reason obj"
proof -
  from assms(3) have "reason obj1 = reason obj"
    by (auto dest!: check_type_and_range_Next
          simp: fillLongitudinalAndLengthByClosestEnvelopeFootprint_def Let_def)
  moreover have "filter_object pd lib params (reference_path_rough data) dtg ext now obj
                   = Inr (Dropped obj1, [])"
    using assms
    by (simp add: filter_object_def pre_checks_def locate_road_shoulder_def bindE_def Let_def)
  ultimately show ?thesis by simp
qed

text \<open>
  The sample scene with a route handler that finds no lanelet: the pedestrian 20 m ahead
  leaves \<open>filterTargetObjects\<close> in its list, with its arc length filled in, and the planning
  data as they were.
\<close>

theorem no_closest_lanelet_drops_object_witness:
  "filterTargetObjects [sample_object 7 PEDESTRIAN 20 (- 1.5) 1] sample_data \<lparr>bounds = []\<rparr>
       (sample_planner_data\<lparr>route_handler :=
          sample_route_handler\<lparr>getClosestLaneletWithinRoute := (\<lambda>pose. None)\<rparr>\<rparr>)
       sample_lib sample_parameters 42
     = Some (Inr ([(sample_object 7 PEDESTRIAN 20 (- 1.5) 1)
                     \<lparr>longitudinal := 19, length_obj := 2\<rparr>],
                  sample_data, \<lparr>bounds = []\<rparr>))
   \<and> target_objects sample_data = [] \<and> other_objects sample_data = []
   \<and> reason ((sample_object 7 PEDESTRIAN 20 (- 1.5) 1)\<lparr>longitudinal := 19, length_obj := 2\<rparr>)
        = Literal ''''"
proof -
  let ?pd = "sample_planner_data\<lparr>route_handler :=
               sample_route_handler\<lparr>getClosestLaneletWithinRoute := (\<lambda>pose. None)\<rparr>\<rparr>"
  let ?obj = "sample_object 7 PEDESTRIAN 20 (- 1.5) 1"
  have idx: "findNearestIndex sample_lib (points (reference_path_rough sample_data))
               (position (initial_pose (object ?obj)))
             < length (points (reference_path_rough sample_data))"
    by (simp add: scene_defs)
  have op: "object_parameters sample_parameters (label (object ?obj)) = Some sample_object_parameter"
    by (simp add: sample_parameters_def sample_object_def)
  have range: "check_type_and_range sample_lib (reference_path_rough sample_data)
                 (position (self_odometry ?pd)) DBL_MAX sample_parameters
                 sample_object_parameter ?obj
               = Next (?obj\<lparr>longitudinal := 19, length_obj := 2\<rparr>)"
    using DBL_MAX_large by (simp add: body_defs scene_defs)
  have none: "getClosestLaneletWithinRoute (route_handler ?pd)
           (point_pose (points (reference_path_rough sample_data) !
              findNearestIndex sample_lib (points (reference_path_rough sample_data))
                (position (initial_pose (object ?obj))))) = None"
    by simp
  from no_closest_lanelet_drops_object [where ext = "[sample_lanelet]" and now = 42
      and rest = "[]" and visited = "[]" and debug = "\<lparr>bounds = []\<rparr>", OF idx op range none]
  have loop: "filter_loop ?pd sample_lib sample_parameters DBL_MAX [sample_lanelet] 42 [?obj]
                ([], sample_data, \<lparr>bounds = []\<rparr>)
              = Inr ([?obj\<lparr>longitudinal := 19, length_obj := 2\<rparr>], sample_data, \<lparr>bounds = []\<rparr>)"
    by simp
  have ext: "extend_lanelets_loop (route_handler ?pd) sample_lib (self_odometry ?pd)
               (forward_path_length (parameters ?pd)) [sample_lanelet] = Some [sample_lanelet]"
    by (subst extend_lanelets_loop.simps)
       (simp add: sample_lib_def sample_route_handler_def sample_planner_data_def)
  have goal_dist: "\<not> isInGoalRouteSection (route_handler ?pd) (last (current_lanelets sample_data))"
    by (simp add: sample_route_handler_def sample_planner_data_def)
  have cur: "current_lanelets sample_data = [sample_lanelet]"
    by (simp add: sample_data_def)
  have run: "filterTargetObjects [?obj] sample_data \<lparr>bounds = []\<rparr> ?pd sample_lib
               sample_parameters 42
             = Some (Inr ([?obj\<lparr>longitudinal := 19, length_obj := 2\<rparr>], sample_data,
                          \<lparr>bounds = []\<rparr>))"
    unfolding filterTargetObjects_def Let_def
    using goal_dist by (simp only: cur ext loop list.simps if_False option.case)
  show ?thesis
    using run by (simp add: sample_data_def sample_object_def)
qed

subsection \<open>The extension ray\<close>

lemma lerpShiftLengthOnArc_guard:
  "\<bar>getRelativeLongitudinal d ap\<bar> < 1 / 100000 \<Longrightarrow>
     lerpShiftLengthOnArc d arc ap
       = (if start_longitudinal ap \<le> arc \<and> arc < end_longitudinal ap
          then end_shift_length ap else 0)"
  by (simp add: lerpShiftLengthOnArc_def)

text \<open>
  Claim C2 (evidence of the defect). Nothing stands between the distance to the road
  shoulder and the division: with the distance 0.0 the ratio is infinite, and both
  coordinates of the far end of the ray are infinite or not a number, whatever the lines
  and positions are; for a small positive distance the ratio is 100 divided by it. In the
  sample scene with a hatched road marking, an object whose envelope reaches the left
  bound, with its overhang position (20, 4) on the bound, has a distance of 0.0 to the
  bound; the function does not return early, and the ray it hands to the intersection test
  ends at (NaN, NaN).
\<close>

theorem ray_division_unguarded:
  "ray_ratio 0 = PosInf
   \<and> \<not> is_finite (fst (calcLatOffsetOverhangPos lib target_line 0 overhang_pos overhang_basic_pose))
   \<and> \<not> is_finite (snd (calcLatOffsetOverhangPos lib target_line 0 overhang_pos overhang_basic_pose))
   \<and> ray_ratio (1 / 10 ^ 12) = Finite (10 ^ 14)
   \<and> collect_expandable_polygons sample_route_handler hatched_lib (level_line 11 4)
        sample_lanelet True False = Inr [hatched_area]
   \<and> calcLatOffsetOverhangPos hatched_lib (level_line 11 4) 0
        \<lparr>px = 20, py = 4, pz = 0\<rparr> \<lparr>px = 20, py = 4, pz = 0\<rparr> = (NaN, NaN)
   \<and> extendToRoadShoulderDistanceWithPolygon sample_route_handler hatched_lib
        (level_line 11 4) 0 sample_lanelet \<lparr>px = 20, py = 4, pz = 0\<rparr>
        \<lparr>px = 20, py = 4, pz = 0\<rparr> True False
      = Inr (update_with_polygons hatched_lib \<lparr>px = 20, py = 4, pz = 0\<rparr> (NaN, NaN)
               [hatched_area] 0)"
proof -
  have general: "ray_ratio 0 = PosInf
     \<and> \<not> is_finite (fst (calcLatOffsetOverhangPos lib target_line 0 overhang_pos
                            overhang_basic_pose))
     \<and> \<not> is_finite (snd (calcLatOffsetOverhangPos lib target_line 0 overhang_pos
                            overhang_basic_pose))
     \<and> ray_ratio (1 / 10 ^ 12) = Finite (10 ^ 14)"
    by (simp add: ray_ratio_def ddiv_def calcLatOffsetOverhangPos_def Let_def)
  have polys: "collect_expandable_polygons sample_route_handler hatched_lib (level_line 11 4)
        sample_lanelet True False = Inr [hatched_area]"
    by (simp add: collect_expandable_polygons_def hatched_lib_def sample_lib_def level_line_def
          hatched_area_def Let_def)
  have ray: "calcLatOffsetOverhangPos hatched_lib (level_line 11 4) 0
        \<lparr>px = 20, py = 4, pz = 0\<rparr> \<lparr>px = 20, py = 4, pz = 0\<rparr> = (NaN, NaN)"
    by (simp add: calcLatOffsetOverhangPos_def ray_ratio_def ddiv_def hatched_lib_def
          sample_lib_def level_line_def Let_def)
  have "extendToRoadShoulderDistanceWithPolygon sample_route_handler hatched_lib
        (level_line 11 4) 0 sample_lanelet \<lparr>px = 20, py = 4, pz = 0\<rparr>
        \<lparr>px = 20, py = 4, pz = 0\<rparr> True False
      = Inr (update_with_polygons hatched_lib \<lparr>px = 20, py = 4, pz = 0\<rparr> (NaN, NaN)
               [hatched_area] 0)"
    unfolding extendToRoadShoulderDistanceWithPolygon_def polys ray [symmetric]
    by (simp add: bindE_def Let_def)
  with general polys ray show ?thesis by blast
qed


end
